theory Spec2Isabelle
  imports Main "HOL-Library.Word"
begin

section \<open>The engine facade: \<^verbatim>\<open>src/engine/homestore.hpp\<close>\<close>

text \<open>
  The class \<^verbatim>\<open>HomeStore\<close> is embedded with explicit state passing: its members are the
  fields of the record \<open>homestore\<close>, every member function takes the state and returns
  either the state it leaves behind, or the exception it throws together with the state
  at the throw (the members assigned before a C++ \<^verbatim>\<open>throw\<close> stay assigned).
  Sizes are \<^verbatim>\<open>uint64_t\<close>, modelled as \<open>64 word\<close>, so that products and sums wrap around
  as they do in the source.

  The collaborators whose code is not part of the two source files (block store,
  device manager, allocator, meta-block manager, configuration constants) are
  either parameters, collected in the record \<open>externals\<close>, or are modelled from
  the specification; each such definition says so.  The cache and the completion
  callbacks are passed through by the source untouched and are left out.
\<close>

type_synonym u64 = "64 word"
type_synonym u32 = "32 word"

text \<open>\<^verbatim>\<open>VENUM(blkstore_type, uint32_t, DATA_STORE = 1, ..., META_STORE = 5)\<close>\<close>

datatype blkstore_type = DATA_STORE | INDEX_STORE | SB_STORE | LOGDEV_STORE | META_STORE

fun blkstore_type_val :: "blkstore_type \<Rightarrow> u32" where
  "blkstore_type_val DATA_STORE = 1"
| "blkstore_type_val INDEX_STORE = 2"
| "blkstore_type_val SB_STORE = 3"
| "blkstore_type_val LOGDEV_STORE = 4"
| "blkstore_type_val META_STORE = 5"

text \<open>
  Modelled from the spec: \<^verbatim>\<open>BlkId\<close> (declared outside the source files) is a triple of
  chunk index, offset within the chunk and number of pages, with one distinguished
  invalid sentinel.
\<close>

datatype BlkId = BlkId_invalid | BlkId_at (chunk_num: nat) (blk_offset: nat) (nblks: nat)

definition is_valid :: "BlkId \<Rightarrow> bool" where
  "is_valid b = (b \<noteq> BlkId_invalid)"

text \<open>
  \<^verbatim>\<open>struct blkstore_blob { type }\<close> and \<^verbatim>\<open>struct sb_blkstore_blob : blkstore_blob { blkid }\<close>.
  A block store is handed the address of a blob together with the \<^verbatim>\<open>sizeof\<close> of one of
  the two structs; the two constructors below are these two sizes.
\<close>

datatype ctx_blob = Blkstore_blob blkstore_type | Sb_blkstore_blob blkstore_type BlkId

text \<open>
  \<^verbatim>\<open>vdev_info_block\<close>: the persistent vdev record.  Its \<^verbatim>\<open>context_data\<close> area has room
  for a \<^verbatim>\<open>sb_blkstore_blob\<close> (the device manager is constructed with that size); the
  facade reads it through both struct views, so the area is modelled by the two
  fields it reads: the raw 32-bit type tag and the block id behind it.
\<close>

record vdev_info_block =
  vb_vdev_id :: nat
  vb_size :: u64
  vb_used :: u64
  vb_context_type :: u32
  vb_context_blkid :: BlkId
  vb_failed :: bool

datatype cache_type = PASS_THRU | WRITEBACK_CACHE | RD_MODIFY_WRITEBACK_CACHE

text \<open>
  Modelled from the spec: \<^verbatim>\<open>BlkStore\<close> (\<^verbatim>\<open>engine/blkstore/blkstore.hpp\<close> is not among the
  source files).  A block store is a typed view over one vdev, configured at
  construction with caching mode, mirror count, page size and context blob; the
  record keeps these arguments as the facade passes them, the size and used size
  that \<^verbatim>\<open>get_size\<close> and \<^verbatim>\<open>get_used_size\<close> report, and the number of times
  \<^verbatim>\<open>recovery_done\<close> was called on it.
\<close>

record blkstore =
  bs_name :: string
  bs_cache_type :: cache_type
  bs_page_size :: u64
  bs_size :: u64
  bs_used_size :: u64
  bs_mirrors :: u64
  bs_context :: "ctx_blob option"
  bs_vb :: "vdev_info_block option"
  bs_is_failed :: bool
  bs_auto_recovery :: bool
  bs_comp_cb :: bool
  bs_recovery_done_calls :: nat

text \<open>
  Modelled from the spec: the \<^verbatim>\<open>BlkStore\<close> constructor for a new vdev (first boot).
  Its arguments are size, cache type, mirrors, context blob, page size, name,
  auto-recovery flag, and whether a completion callback is given; nothing is in
  use yet.
\<close>

definition BlkStore_create ::
  "u64 \<Rightarrow> cache_type \<Rightarrow> u64 \<Rightarrow> ctx_blob \<Rightarrow> u64 \<Rightarrow> string \<Rightarrow> bool \<Rightarrow> bool \<Rightarrow> blkstore" where
  "BlkStore_create sz ct mirrors blob page_size name auto_recovery cb =
     \<lparr>bs_name = name, bs_cache_type = ct, bs_page_size = page_size, bs_size = sz,
      bs_used_size = 0, bs_mirrors = mirrors, bs_context = Some blob, bs_vb = None,
      bs_is_failed = False, bs_auto_recovery = auto_recovery, bs_comp_cb = cb,
      bs_recovery_done_calls = 0\<rparr>"

text \<open>
  Modelled from the spec: the \<^verbatim>\<open>BlkStore\<close> constructor over a rediscovered vdev record
  (reattach).  Its arguments are the record, cache type, page size, name, failed
  flag, auto-recovery flag, and whether a completion callback is given; size and
  used size are those of the record.
\<close>

definition BlkStore_load ::
  "vdev_info_block \<Rightarrow> cache_type \<Rightarrow> u64 \<Rightarrow> string \<Rightarrow> bool \<Rightarrow> bool \<Rightarrow> bool \<Rightarrow> blkstore" where
  "BlkStore_load vb ct page_size name is_failed auto_recovery cb =
     \<lparr>bs_name = name, bs_cache_type = ct, bs_page_size = page_size, bs_size = vb_size vb,
      bs_used_size = vb_used vb, bs_mirrors = 0, bs_context = None, bs_vb = Some vb,
      bs_is_failed = is_failed, bs_auto_recovery = auto_recovery, bs_comp_cb = cb,
      bs_recovery_done_calls = 0\<rparr>"

text \<open>
  Modelled from the spec: the operations of a block store that the facade calls.
  \<^verbatim>\<open>get_used_size\<close> and \<^verbatim>\<open>get_size\<close> report the two sizes, \<^verbatim>\<open>recovery_done\<close> marks the
  allocator state consistent (counted here), \<^verbatim>\<open>update_vb_context\<close> rewrites the context
  blob of the vdev.
\<close>

definition get_used_size :: "blkstore \<Rightarrow> u64" where
  "get_used_size s = bs_used_size s"

definition get_size :: "blkstore \<Rightarrow> u64" where
  "get_size s = bs_size s"

definition recovery_done :: "blkstore \<Rightarrow> blkstore" where
  "recovery_done s = s\<lparr>bs_recovery_done_calls := Suc (bs_recovery_done_calls s)\<rparr>"

definition update_vb_context :: "ctx_blob \<Rightarrow> blkstore \<Rightarrow> blkstore" where
  "update_vb_context blob s = s\<lparr>bs_context := Some blob\<rparr>"

text \<open>The allocator interface used by \<^verbatim>\<open>alloc_sb_blk\<close>.\<close>

record blk_alloc_hints =
  desired_temp :: int
  dev_id_hint :: int
  is_contiguous :: bool

text \<open>
  \<^verbatim>\<open>BlkAllocStatus\<close>: only \<^verbatim>\<open>SUCCESS\<close> is named by the facade; every other status
  (whatever the allocator's enum lists) is \<open>ALLOC_FAILED\<close> with its code.
\<close>

datatype BlkAllocStatus = SUCCESS | ALLOC_FAILED nat

text \<open>
  \<^verbatim>\<open>alloc_contiguous_blk(sz, hints, &bid)\<close> of a block store: a parameter.  It returns
  the status, the value left in the out-parameter, and the used size of the store
  afterwards.
\<close>

type_synonym blk_allocator =
  "blkstore \<Rightarrow> u64 \<Rightarrow> blk_alloc_hints \<Rightarrow> BlkAllocStatus \<times> BlkId \<times> u64"

text \<open>Drive attributes and the input parameters, as far as the facade reads them.\<close>

record drive_attributes =
  phys_page_size :: u64
  atomic_phys_page_size :: u64

record hs_input_params =
  devices :: "string list"
  drive_attr_override :: "drive_attributes option"
  min_virtual_page_size :: u32
  is_restricted_mode :: bool

record hs_static_config =
  cfg_input :: hs_input_params
  cfg_drive_attr :: drive_attributes
  cfg_min_io_size :: u32

text \<open>
  What the raw devices hold when they are attached: their total capacity and, when
  a fleet was initialised on them before, the persisted vdev catalog in the order in
  which the device manager reports it.
\<close>

record media =
  media_total_cap :: u64
  media_vdevs :: "vdev_info_block list option"

record device_manager =
  dm_total_cap :: u64
  dm_first_time_boot :: bool
  dm_restricted :: bool
  dm_init_done :: bool

text \<open>
  The parameters of the embedding: constants and helpers that the source uses and
  that are declared elsewhere.  \<open>asserts_abort\<close> says whether a failing
  \<^verbatim>\<open>HS_ASSERT(LOGMSG, ...)\<close> stops the program (a debug build) or only logs.
\<close>

record externals =
  MIN_DISK_CAP_SUPPORTED :: u64
  MAX_SUPPORTED_CAP :: u64
  META_BLK_PAGE_SZ :: u64
  asserts_abort :: bool
  alloc_contiguous_blk :: blk_allocator
  probe_drive_attrs :: "string list \<Rightarrow> drive_attributes"
  the_media :: media

text \<open>Exceptions and fatal stops.\<close>

datatype homestore_error = space_not_avail | init_failed

datatype exn =
    Invalid_argument string
  | Runtime_error string
  | Homestore_exception string homestore_error
  | Assert_failure
  | Null_deref
  | Div_by_zero

record homestore =
  m_vdev_failed :: bool
  m_data_blk_store :: "blkstore option"
  m_index_blk_store :: "blkstore option"
  m_sb_blk_store :: "blkstore option"
  m_logdev_blk_store :: "blkstore option"
  m_meta_blk_store :: "blkstore option"
  m_dev_mgr :: "device_manager option"
  m_size_avail :: u64
  m_data_pagesz :: u32
  hs_config :: hs_static_config
  meta_blk_mgr_start :: "(BlkId option \<times> bool) option"
  resource_total_cap :: u64

type_synonym 'a outcome = "(exn \<times> homestore) + ('a \<times> homestore)"
type_synonym result = "(exn \<times> homestore) + homestore"

text \<open>The state a call leaves behind, whether it returned or threw.\<close>

fun state_of :: "result \<Rightarrow> homestore" where
  "state_of (Inl (e, hs)) = hs"
| "state_of (Inr hs) = hs"

text \<open>The exception a call threw, if it threw.\<close>

fun thrown :: "result \<Rightarrow> exn option" where
  "thrown (Inl (e, hs)) = Some e"
| "thrown (Inr hs) = None"

text \<open>Sequencing: the second call runs only when the first returned.\<close>

fun and_then :: "result \<Rightarrow> (homestore \<Rightarrow> result) \<Rightarrow> result" where
  "and_then (Inl x) f = Inl x"
| "and_then (Inr hs) f = f hs"

text \<open>
  The getters \<^verbatim>\<open>get_data_blkstore()\<close>, \<^verbatim>\<open>get_index_blkstore()\<close>, \<^verbatim>\<open>get_sb_blkstore()\<close>,
  \<^verbatim>\<open>get_logdev_blkstore()\<close> and \<^verbatim>\<open>get_meta_blkstore()\<close>, indexed by the store type.
\<close>

fun store_of :: "blkstore_type \<Rightarrow> homestore \<Rightarrow> blkstore option" where
  "store_of DATA_STORE hs = m_data_blk_store hs"
| "store_of INDEX_STORE hs = m_index_blk_store hs"
| "store_of SB_STORE hs = m_sb_blk_store hs"
| "store_of LOGDEV_STORE hs = m_logdev_blk_store hs"
| "store_of META_STORE hs = m_meta_blk_store hs"

text \<open>The state of a default-constructed \<^verbatim>\<open>HomeStore\<close> (the member initialisers of the class), over a given static configuration.\<close>

definition HomeStore_new :: "hs_static_config \<Rightarrow> homestore" where
  "HomeStore_new cfg =
     \<lparr>m_vdev_failed = False, m_data_blk_store = None, m_index_blk_store = None,
      m_sb_blk_store = None, m_logdev_blk_store = None, m_meta_blk_store = None,
      m_dev_mgr = None, m_size_avail = 0, m_data_pagesz = 0, hs_config = cfg,
      meta_blk_mgr_start = None, resource_total_cap = 0\<rparr>"

text \<open>
  \<^verbatim>\<open>init(input)\<close>.  The drive attributes are the override of the input or, without one,
  what the drive interface reports for the devices.  The dynamic settings, the
  debug-only configuration check and the cache are not modelled.
\<close>

definition init :: "externals \<Rightarrow> hs_input_params \<Rightarrow> homestore \<Rightarrow> result" where
  "init X input hs =
     (if length (devices input) = 0 then Inl (Invalid_argument ''null device list'', hs)
      else
        let attr = (case drive_attr_override input of
                      Some a \<Rightarrow> a
                    | None \<Rightarrow> probe_drive_attrs X (devices input));
            cfg = \<lparr>cfg_input = input, cfg_drive_attr = attr,
                   cfg_min_io_size = min (min_virtual_page_size input)
                                         (ucast (atomic_phys_page_size attr))\<rparr>
        in Inr (hs\<lparr>hs_config := cfg,
                   m_data_pagesz := min_virtual_page_size input,
                   m_dev_mgr := Some \<lparr>dm_total_cap = 0, dm_first_time_boot = False,
                                       dm_restricted = is_restricted_mode input,
                                       dm_init_done = False\<rparr>\<rparr>))"

text \<open>\<^verbatim>\<open>get_system_capacity()\<close>; the getters dereference the store pointers.\<close>

record cap_attrs =
  used_data_size :: u64
  used_index_size :: u64
  used_total_size :: u64
  initial_total_size :: u64

definition get_system_capacity :: "homestore \<Rightarrow> exn + cap_attrs" where
  "get_system_capacity hs =
     (case m_data_blk_store hs of
        None \<Rightarrow> Inl Null_deref
      | Some d \<Rightarrow>
          (case m_index_blk_store hs of
             None \<Rightarrow> Inl Null_deref
           | Some i \<Rightarrow>
               let used_data = get_used_size d;
                   used_index = get_used_size i
               in Inr \<lparr>used_data_size = used_data, used_index_size = used_index,
                       used_total_size = used_data + used_index,
                       initial_total_size = get_size d + get_size i\<rparr>))"

text \<open>\<^verbatim>\<open>alloc_sb_blk(sz)\<close>\<close>

definition alloc_sb_blk :: "externals \<Rightarrow> u64 \<Rightarrow> homestore \<Rightarrow> BlkId outcome" where
  "alloc_sb_blk X sz hs =
     (let hints = \<lparr>desired_temp = 0, dev_id_hint = - 1, is_contiguous = True\<rparr>
      in (case m_sb_blk_store hs of
            None \<Rightarrow> Inl (Null_deref, hs)
          | Some sb \<Rightarrow>
              (case alloc_contiguous_blk X sb sz hints of
                 (ret, bid, used) \<Rightarrow>
                   let hs' = hs\<lparr>m_sb_blk_store := Some (sb\<lparr>bs_used_size := used\<rparr>)\<rparr>
                   in if ret \<noteq> SUCCESS
                      then Inl (Homestore_exception ''space not available'' space_not_avail, hs')
                      else Inr (bid, hs'))))"

text \<open>\<^verbatim>\<open>data_recovery_done()\<close> and \<^verbatim>\<open>indx_recovery_done()\<close>\<close>

definition data_recovery_done :: "homestore \<Rightarrow> result" where
  "data_recovery_done hs =
     (case m_dev_mgr hs of
        None \<Rightarrow> Inl (Null_deref, hs)
      | Some dm \<Rightarrow>
          if \<not> dm_first_time_boot dm
          then (case m_data_blk_store hs of
                  None \<Rightarrow> Inl (Null_deref, hs)
                | Some d \<Rightarrow> Inr (hs\<lparr>m_data_blk_store := Some (recovery_done d)\<rparr>))
          else Inr hs)"

definition indx_recovery_done :: "homestore \<Rightarrow> result" where
  "indx_recovery_done hs =
     (case m_dev_mgr hs of
        None \<Rightarrow> Inl (Null_deref, hs)
      | Some dm \<Rightarrow>
          if \<not> dm_first_time_boot dm
          then (case m_index_blk_store hs of
                  None \<Rightarrow> Inl (Null_deref, hs)
                | Some i \<Rightarrow> Inr (hs\<lparr>m_index_blk_store := Some (recovery_done i)\<rparr>))
          else Inr hs)"

text \<open>
  Modelled from the spec: \<^verbatim>\<open>sisl::round_up\<close> (declared in \<^verbatim>\<open>fds/utils.hpp\<close>, not among
  the source files) rounds a size up to the next multiple of its second argument.
\<close>

definition round_up :: "u64 \<Rightarrow> u64 \<Rightarrow> u64" where
  "round_up num multiple = ((num + multiple - 1) div multiple) * multiple"

text \<open>\<^verbatim>\<open>HS_ASSERT(LOGMSG, cond, ...)\<close> and \<^verbatim>\<open>HS_ASSERT_CMP(LOGMSG, ...)\<close>\<close>

definition hs_assert :: "externals \<Rightarrow> bool \<Rightarrow> homestore \<Rightarrow> result" where
  "hs_assert X cond hs =
     (if cond then Inr hs
      else if asserts_abort X then Inl (Assert_failure, hs)
      else Inr hs)"

text \<open>\<^verbatim>\<open>create_data_blkstore(vb)\<close>; \<open>None\<close> is \<^verbatim>\<open>nullptr\<close>, the first-boot call.\<close>

definition create_data_blkstore :: "externals \<Rightarrow> vdev_info_block option \<Rightarrow> homestore \<Rightarrow> result" where
  "create_data_blkstore X vb hs =
     (case vb of
        None \<Rightarrow>
          (case m_dev_mgr hs of
             None \<Rightarrow> Inl (Null_deref, hs)
           | Some dm \<Rightarrow>
               let blob = Blkstore_blob DATA_STORE;
                   sz = (90 * dm_total_cap dm) div 100;
                   sz = round_up sz (phys_page_size (cfg_drive_attr (hs_config hs)));
                   hs = hs\<lparr>m_size_avail := sz\<rparr>
               in Inr (hs\<lparr>m_data_blk_store :=
                             Some (BlkStore_create sz WRITEBACK_CACHE 0 blob
                                     (ucast (m_data_pagesz hs)) ''data'' True True)\<rparr>))
      | Some v \<Rightarrow>
          let hs = hs\<lparr>m_data_blk_store :=
                        Some (BlkStore_load v WRITEBACK_CACHE (ucast (m_data_pagesz hs)) ''data''
                                (if vb_failed v then True else False) True True)\<rparr>
          in if vb_failed v
             then Inl (Runtime_error ''vdev in failed state'', hs\<lparr>m_vdev_failed := True\<rparr>)
             else Inr hs)"

text \<open>\<^verbatim>\<open>create_index_blkstore(vb)\<close>\<close>

definition create_index_blkstore :: "externals \<Rightarrow> vdev_info_block option \<Rightarrow> homestore \<Rightarrow> result" where
  "create_index_blkstore X vb hs =
     (case vb of
        None \<Rightarrow>
          (case m_dev_mgr hs of
             None \<Rightarrow> Inl (Null_deref, hs)
           | Some dm \<Rightarrow>
               let blob = Blkstore_blob INDEX_STORE;
                   sz = (2 * dm_total_cap dm) div 100;
                   sz = round_up sz (phys_page_size (cfg_drive_attr (hs_config hs)))
               in Inr (hs\<lparr>m_index_blk_store :=
                             Some (BlkStore_create sz RD_MODIFY_WRITEBACK_CACHE 0 blob
                                     (atomic_phys_page_size (cfg_drive_attr (hs_config hs)))
                                     ''index'' True False)\<rparr>))
      | Some v \<Rightarrow>
          let hs = hs\<lparr>m_index_blk_store :=
                        Some (BlkStore_load v RD_MODIFY_WRITEBACK_CACHE
                                (atomic_phys_page_size (cfg_drive_attr (hs_config hs))) ''index''
                                (if vb_failed v then True else False) True False)\<rparr>
          in if vb_failed v
             then Inl (Runtime_error ''vdev in failed state'', hs\<lparr>m_vdev_failed := True\<rparr>)
             else Inr hs)"

text \<open>
  \<^verbatim>\<open>create_sb_blkstore(vb)\<close> (marked deprecated in the source).  The first-boot branch
  registers the store with an invalidated block id, allocates the root block with
  \<^verbatim>\<open>alloc_sb_blk\<close> and rewrites the context; the reattach branch passes the literal
  \<^verbatim>\<open>false\<close> as failed flag.  The buffers read by \<^verbatim>\<open>read_nmirror\<close> are not used.
\<close>

definition create_sb_blkstore :: "externals \<Rightarrow> vdev_info_block option \<Rightarrow> homestore \<Rightarrow> result" where
  "create_sb_blkstore X vb hs =
     (case vb of
        None \<Rightarrow>
          (case m_dev_mgr hs of
             None \<Rightarrow> Inl (Null_deref, hs)
           | Some dm \<Rightarrow>
               let blob = Sb_blkstore_blob SB_STORE BlkId_invalid;
                   sz = (1 * dm_total_cap dm) div 100;
                   sz = round_up sz (phys_page_size (cfg_drive_attr (hs_config hs)));
                   hs = hs\<lparr>m_sb_blk_store :=
                             Some (BlkStore_create sz PASS_THRU
                                     (of_nat (length (devices (cfg_input (hs_config hs)))) - 1) blob
                                     (atomic_phys_page_size (cfg_drive_attr (hs_config hs)))
                                     ''superblock'' False False)\<rparr>
               in (case alloc_sb_blk X (atomic_phys_page_size (cfg_drive_attr (hs_config hs))) hs of
                     Inl e \<Rightarrow> Inl e
                   | Inr (bid, hs) \<Rightarrow>
                       (case m_sb_blk_store hs of
                          None \<Rightarrow> Inl (Null_deref, hs)
                        | Some sb \<Rightarrow>
                            Inr (hs\<lparr>m_sb_blk_store :=
                                      Some (update_vb_context (Sb_blkstore_blob SB_STORE bid) sb)\<rparr>))))
      | Some v \<Rightarrow>
          let hs = hs\<lparr>m_sb_blk_store :=
                        Some (BlkStore_load v PASS_THRU
                                (atomic_phys_page_size (cfg_drive_attr (hs_config hs)))
                                ''superblock'' False False False)\<rparr>
          in if vb_failed v
             then Inl (Runtime_error ''vdev in failed state'', hs\<lparr>m_vdev_failed := True\<rparr>)
             else if \<not> is_valid (vb_context_blkid v)
             then Inl (Homestore_exception
                         ''init was failed last time. Should retry it with init'' init_failed, hs)
             else Inr hs)"

text \<open>
  \<^verbatim>\<open>create_meta_blkstore(vb)\<close>.  On reattach the context of the META record is read
  through the \<^verbatim>\<open>sb_blkstore_blob\<close> view.  \<^verbatim>\<open>meta_blk_mgr->start(store, sb_blob, init)\<close> is
  recorded with the block id behind \<^verbatim>\<open>sb_blob\<close> (\<open>None\<close> for \<^verbatim>\<open>nullptr\<close>) and the flag.
\<close>

definition create_meta_blkstore :: "externals \<Rightarrow> vdev_info_block option \<Rightarrow> homestore \<Rightarrow> result" where
  "create_meta_blkstore X vb hs =
     (case vb of
        None \<Rightarrow>
          (case m_dev_mgr hs of
             None \<Rightarrow> Inl (Null_deref, hs)
           | Some dm \<Rightarrow>
               let blob = Blkstore_blob META_STORE;
                   sz = (1 * dm_total_cap dm) div 100;
                   sz = round_up sz (phys_page_size (cfg_drive_attr (hs_config hs)));
                   hs = hs\<lparr>m_meta_blk_store :=
                             Some (BlkStore_create sz PASS_THRU 0 blob (META_BLK_PAGE_SZ X)
                                     ''meta'' False False)\<rparr>
               in Inr (hs\<lparr>meta_blk_mgr_start := Some (None, True)\<rparr>))
      | Some v \<Rightarrow>
          let hs = hs\<lparr>m_meta_blk_store :=
                        Some (BlkStore_load v PASS_THRU (META_BLK_PAGE_SZ X) ''meta''
                                (if vb_failed v then True else False) False False)\<rparr>
          in if vb_failed v
             then Inl (Runtime_error ''vdev in failed state'', hs\<lparr>m_vdev_failed := True\<rparr>)
             else if \<not> is_valid (vb_context_blkid v)
             then Inl (Homestore_exception
                         ''init was failed last time. Should retry it with init'' init_failed, hs)
             else Inr (hs\<lparr>meta_blk_mgr_start := Some (Some (vb_context_blkid v), False)\<rparr>))"

text \<open>\<^verbatim>\<open>create_logdev_blkstore(vb)\<close>\<close>

definition create_logdev_blkstore :: "externals \<Rightarrow> vdev_info_block option \<Rightarrow> homestore \<Rightarrow> result" where
  "create_logdev_blkstore X vb hs =
     (case vb of
        None \<Rightarrow>
          (case m_dev_mgr hs of
             None \<Rightarrow> Inl (Null_deref, hs)
           | Some dm \<Rightarrow>
               let blob = Blkstore_blob LOGDEV_STORE;
                   sz = (1 * dm_total_cap dm) div 100;
                   sz = round_up sz (phys_page_size (cfg_drive_attr (hs_config hs)))
               in Inr (hs\<lparr>m_logdev_blk_store :=
                             Some (BlkStore_create sz PASS_THRU 0 blob
                                     (atomic_phys_page_size (cfg_drive_attr (hs_config hs)))
                                     ''logdev'' False True)\<rparr>))
      | Some v \<Rightarrow>
          let hs = hs\<lparr>m_logdev_blk_store :=
                        Some (BlkStore_load v PASS_THRU
                                (atomic_phys_page_size (cfg_drive_attr (hs_config hs))) ''logdev''
                                (if vb_failed v then True else False) False True)\<rparr>
          in if vb_failed v
             then Inl (Runtime_error ''vdev in failed state'', hs\<lparr>m_vdev_failed := True\<rparr>)
             else Inr hs)"

text \<open>\<^verbatim>\<open>new_vdev_found(dev_mgr, vb)\<close>: the switch on the type tag of the context.\<close>

definition new_vdev_found :: "externals \<Rightarrow> vdev_info_block \<Rightarrow> homestore \<Rightarrow> result" where
  "new_vdev_found X vb hs =
     (if vb_context_type vb = blkstore_type_val DATA_STORE then create_data_blkstore X (Some vb) hs
      else if vb_context_type vb = blkstore_type_val INDEX_STORE then create_index_blkstore X (Some vb) hs
      else if vb_context_type vb = blkstore_type_val SB_STORE then create_sb_blkstore X (Some vb) hs
      else if vb_context_type vb = blkstore_type_val LOGDEV_STORE then create_logdev_blkstore X (Some vb) hs
      else if vb_context_type vb = blkstore_type_val META_STORE then create_meta_blkstore X (Some vb) hs
      else hs_assert X False hs)"

text \<open>
  Modelled from the spec: \<^verbatim>\<open>DeviceManager::add_devices\<close> (\<^verbatim>\<open>engine/device/device.h\<close> is
  not among the source files) opens the devices and either finds no initialised
  fleet and returns true, or invokes the vdev-found callback once per persisted
  vdev record and returns false.  An exception of the callback leaves through
  \<^verbatim>\<open>add_devices\<close>; the records after it are not dispatched.
\<close>

definition attach_devices :: "externals \<Rightarrow> bool \<Rightarrow> device_manager \<Rightarrow> device_manager" where
  "attach_devices X first_time_boot dm =
     dm\<lparr>dm_total_cap := media_total_cap (the_media X), dm_first_time_boot := first_time_boot\<rparr>"

fun dispatch_vdevs :: "externals \<Rightarrow> vdev_info_block list \<Rightarrow> homestore \<Rightarrow> result" where
  "dispatch_vdevs X [] hs = Inr hs"
| "dispatch_vdevs X (vb # vbs) hs = and_then (new_vdev_found X vb hs) (dispatch_vdevs X vbs)"

definition add_devices :: "externals \<Rightarrow> string list \<Rightarrow> homestore \<Rightarrow> bool outcome" where
  "add_devices X devs hs =
     (case m_dev_mgr hs of
        None \<Rightarrow> Inl (Null_deref, hs)
      | Some dm \<Rightarrow>
          (case media_vdevs (the_media X) of
             None \<Rightarrow> Inr (True, hs\<lparr>m_dev_mgr := Some (attach_devices X True dm)\<rparr>)
           | Some vbs \<Rightarrow>
               (case dispatch_vdevs X vbs (hs\<lparr>m_dev_mgr := Some (attach_devices X False dm)\<rparr>) of
                  Inl e \<Rightarrow> Inl e
                | Inr hs' \<Rightarrow> Inr (False, hs'))))"

text \<open>The five first-boot calls of \<^verbatim>\<open>init_devices\<close>, in the order of the source.\<close>

definition create_all_blkstores :: "externals \<Rightarrow> homestore \<Rightarrow> result" where
  "create_all_blkstores X hs =
     and_then (create_data_blkstore X None hs) (\<lambda>hs.
     and_then (create_index_blkstore X None hs) (\<lambda>hs.
     and_then (create_sb_blkstore X None hs) (\<lambda>hs.
     and_then (create_logdev_blkstore X None hs) (\<lambda>hs.
     create_meta_blkstore X None hs))))"

text \<open>\<^verbatim>\<open>init_devices()\<close>\<close>

definition init_devices :: "externals \<Rightarrow> homestore \<Rightarrow> result" where
  "init_devices X hs =
     (case add_devices X (devices (cfg_input (hs_config hs))) hs of
        Inl e \<Rightarrow> Inl e
      | Inr (first_time_boot, hs) \<Rightarrow>
          (case m_dev_mgr hs of
             None \<Rightarrow> Inl (Null_deref, hs)
           | Some dm \<Rightarrow>
               let ndev = (of_nat (length (devices (cfg_input (hs_config hs)))) :: u64)
               in if ndev = 0 then Inl (Div_by_zero, hs)
                  else
                    and_then (hs_assert X (MIN_DISK_CAP_SUPPORTED X < dm_total_cap dm div ndev) hs) (\<lambda>hs.
                    and_then (hs_assert X (dm_total_cap dm < MAX_SUPPORTED_CAP X) hs) (\<lambda>hs.
                    and_then (if first_time_boot then create_all_blkstores X hs else Inr hs) (\<lambda>hs.
                      (case m_dev_mgr hs of
                         None \<Rightarrow> Inl (Null_deref, hs)
                       | Some dm \<Rightarrow>
                           Inr (hs\<lparr>m_dev_mgr := Some (dm\<lparr>dm_init_done := True\<rparr>),
                                   resource_total_cap := dm_total_cap dm\<rparr>)))))))"

subsection \<open>The first-boot table of the specification\<close>

text \<open>
  The per-type first-boot parameters as the specification tabulates them: caching
  mode, number of mirrors (for a given number of devices), page size (from the
  minimum virtual page size, the atomic physical page size and the META page size)
  and share of the total capacity in percent.  They are what the constructor calls
  of the source are compared with.
\<close>

fun spec_caching :: "blkstore_type \<Rightarrow> cache_type" where
  "spec_caching DATA_STORE = WRITEBACK_CACHE"
| "spec_caching INDEX_STORE = RD_MODIFY_WRITEBACK_CACHE"
| "spec_caching SB_STORE = PASS_THRU"
| "spec_caching LOGDEV_STORE = PASS_THRU"
| "spec_caching META_STORE = PASS_THRU"

fun spec_mirrors :: "nat \<Rightarrow> blkstore_type \<Rightarrow> nat" where
  "spec_mirrors ndevices SB_STORE = ndevices - 1"
| "spec_mirrors ndevices t = 0"

fun spec_page_size :: "u32 \<Rightarrow> u64 \<Rightarrow> u64 \<Rightarrow> blkstore_type \<Rightarrow> u64" where
  "spec_page_size min_virtual atomic meta DATA_STORE = ucast min_virtual"
| "spec_page_size min_virtual atomic meta META_STORE = meta"
| "spec_page_size min_virtual atomic meta t = atomic"

fun spec_share :: "blkstore_type \<Rightarrow> nat" where
  "spec_share DATA_STORE = 90"
| "spec_share INDEX_STORE = 2"
| "spec_share SB_STORE = 1"
| "spec_share LOGDEV_STORE = 1"
| "spec_share META_STORE = 1"

section \<open>The log store: \<^verbatim>\<open>src/include/homestore/logstore/log_store.hpp\<close>\<close>

text \<open>
  The header declares the class \<^verbatim>\<open>HomeLogStore\<close>; of the member functions used below
  only \<^verbatim>\<open>truncated_upto\<close> and the constant \<^verbatim>\<open>invalid_lsn\<close> are defined in it.  The
  others are declared with their documentation; their bodies
  (\<^verbatim>\<open>log_store.cpp\<close>, the stream tracker and the log device) are not among the source
  files and are modelled from the specification.

  \<^verbatim>\<open>logstore_seq_num_t\<close> is a signed 64-bit integer.  Sequence numbers are modelled
  as \<open>int\<close>; the two limits the header names are the constants below.
\<close>

definition INT64_MAX :: int where
  "INT64_MAX = 2 ^ 63 - 1"

definition INT64_MIN :: int where
  "INT64_MIN = - (2 ^ 63)"

definition invalid_lsn :: int where
  "invalid_lsn = INT64_MIN"

datatype slot_status = EMPTY | ISSUED | COMPLETED | TRUNCATED | GAP_FILLED

text \<open>
  Modelled from the spec: the stream tracker \<^verbatim>\<open>m_records\<close> is a dense mapping of the
  contiguous sequence numbers from the truncation floor on to record slots, each
  carrying a status.  A sequence number below the floor is \<open>TRUNCATED\<close>, one past
  the last slot held is \<open>EMPTY\<close>.
\<close>

record stream_tracker =
  st_floor :: int
  st_slots :: "slot_status list"

definition slot_status_at :: "stream_tracker \<Rightarrow> int \<Rightarrow> slot_status" where
  "slot_status_at tr j =
     (if j < st_floor tr then TRUNCATED
      else if j < st_floor tr + int (length (st_slots tr)) then st_slots tr ! nat (j - st_floor tr)
      else EMPTY)"

text \<open>
  Modelled from the spec: what a contiguity query looks for in a slot.  The
  completed query accepts \<open>COMPLETED\<close> and \<open>GAP_FILLED\<close>, the issued query accepts
  \<open>ISSUED\<close>.
\<close>

definition slot_matches :: "bool \<Rightarrow> slot_status \<Rightarrow> bool" where
  "slot_matches completed s =
     (if completed then s = COMPLETED \<or> s = GAP_FILLED else s = ISSUED)"

text \<open>
  Modelled from the spec: the scan behind \<^verbatim>\<open>get_contiguous_completed_seq_num\<close> and
  \<^verbatim>\<open>get_contiguous_issued_seq_num\<close>.  The search begins after \<open>k\<close> (exclusive) and moves
  forward while the next slot has the status looked for.
\<close>

function contiguous_upto :: "bool \<Rightarrow> stream_tracker \<Rightarrow> int \<Rightarrow> int" where
  "contiguous_upto completed tr k =
     (if slot_matches completed (slot_status_at tr (k + 1))
      then contiguous_upto completed tr (k + 1)
      else k)"
  by pat_completeness auto
termination
proof (relation "measure (\<lambda>(completed, tr, k). nat (st_floor tr + int (length (st_slots tr)) - k))")
  show "wf (measure (\<lambda>(completed, tr, k). nat (st_floor tr + int (length (st_slots tr)) - k)))"
    by simp
next
  fix completed :: bool and tr :: stream_tracker and k :: int
  assume m: "slot_matches completed (slot_status_at tr (k + 1))"
  have "k + 1 < st_floor tr + int (length (st_slots tr))"
  proof (rule ccontr)
    assume "\<not> k + 1 < st_floor tr + int (length (st_slots tr))"
    then have "slot_status_at tr (k + 1) = TRUNCATED \<or> slot_status_at tr (k + 1) = EMPTY"
      by (simp add: slot_status_at_def)
    with m show False
      by (auto simp: slot_matches_def split: if_splits)
  qed
  then show "((completed, tr, k + 1), (completed, tr, k))
               \<in> measure (\<lambda>(completed, tr, k). nat (st_floor tr + int (length (st_slots tr)) - k))"
    by simp
qed

declare contiguous_upto.simps [simp del]

text \<open>
  Modelled from the spec: the two queries of the header, over the tracker of the
  store; \<open>from\<close> is exclusive, the result inclusive.
\<close>

definition get_contiguous_completed_seq_num :: "stream_tracker \<Rightarrow> int \<Rightarrow> int" where
  "get_contiguous_completed_seq_num tr from = contiguous_upto True tr from"

definition get_contiguous_issued_seq_num :: "stream_tracker \<Rightarrow> int \<Rightarrow> int" where
  "get_contiguous_issued_seq_num tr from = contiguous_upto False tr from"

text \<open>
  \<^verbatim>\<open>truncation_info\<close> and the members of \<^verbatim>\<open>HomeLogStore\<close> that truncation uses.  The
  log device key is opaque to the log store; it is a type parameter with a linear
  order, \<open>None\<close> being the invalid key.
\<close>

record 'k truncation_info =
  ti_seq_num :: int
  ti_ld_key :: "'k option"

record 'k HomeLogStore =
  m_store_id :: nat
  m_records :: stream_tracker
  m_seq_num :: int
  m_flush_batch_max_lsn :: int
  m_truncation_barriers :: "(int \<times> 'k) list"
  m_safe_truncation_boundary :: "'k truncation_info"

text \<open>\<^verbatim>\<open>truncated_upto()\<close>, as the header defines it.\<close>

definition truncated_upto :: "'k HomeLogStore \<Rightarrow> int" where
  "truncated_upto s =
     (let ts = ti_seq_num (m_safe_truncation_boundary s)
      in if ts = INT64_MAX then - 1 else ts)"

text \<open>
  Modelled from the spec: \<^verbatim>\<open>on_batch_completion(flush_batch_ld_key)\<close> pushes the pair of
  \<^verbatim>\<open>m_flush_batch_max_lsn\<close> and the key onto the truncation barriers.
\<close>

definition on_batch_completion :: "'k \<Rightarrow> 'k HomeLogStore \<Rightarrow> 'k HomeLogStore" where
  "on_batch_completion flush_batch_ld_key s =
     s\<lparr>m_truncation_barriers := m_truncation_barriers s @ [(m_flush_batch_max_lsn s, flush_batch_ld_key)]\<rparr>"

text \<open>
  Modelled from the spec: the highest truncation barrier at or below a sequence
  number, if there is one.
\<close>

fun highest_barrier_le :: "int \<Rightarrow> (int \<times> 'k) list \<Rightarrow> (int \<times> 'k) option" where
  "highest_barrier_le bound [] = None"
| "highest_barrier_le bound ((lsn, key) # bs) =
     (case highest_barrier_le bound bs of
        None \<Rightarrow> if lsn \<le> bound then Some (lsn, key) else None
      | Some (lsn', key') \<Rightarrow>
          if lsn \<le> bound \<and> lsn' < lsn then Some (lsn, key) else Some (lsn', key'))"

text \<open>
  Modelled from the spec: \<^verbatim>\<open>pre_device_truncation()\<close> returns the store's safe
  boundary, its highest truncation barrier at or below \<^verbatim>\<open>truncated_upto()\<close>, or an
  invalid boundary when it has none.
\<close>

definition pre_device_truncation :: "'k HomeLogStore \<Rightarrow> 'k truncation_info" where
  "pre_device_truncation s =
     (case highest_barrier_le (truncated_upto s) (m_truncation_barriers s) of
        None \<Rightarrow> \<lparr>ti_seq_num = truncated_upto s, ti_ld_key = None\<rparr>
      | Some (lsn, key) \<Rightarrow> \<lparr>ti_seq_num = truncated_upto s, ti_ld_key = Some key\<rparr>)"

text \<open>
  Modelled from the spec: \<^verbatim>\<open>post_device_truncation(trunc_upto_key)\<close> confirms that the
  device has truncated up to the key and drops the barriers that are stale by then.
\<close>

definition post_device_truncation :: "'k::linorder \<Rightarrow> 'k HomeLogStore \<Rightarrow> 'k HomeLogStore" where
  "post_device_truncation trunc_upto_key s =
     s\<lparr>m_truncation_barriers :=
         filter (\<lambda>(lsn, key). trunc_upto_key < key) (m_truncation_barriers s)\<rparr>"

text \<open>
  Modelled from the spec: the safe-truncation protocol of the engine over the
  stores sharing one log device.  Step 1 asks every store for its boundary, step 2
  takes the minimum (a store that returns an invalid boundary is ignored, as the
  header asks of the caller), step 3 truncates the device at that key, step 4
  confirms to every store.  With no valid boundary nothing is truncated.
\<close>

fun min_safe_ld_key :: "'k::linorder HomeLogStore list \<Rightarrow> 'k option" where
  "min_safe_ld_key [] = None"
| "min_safe_ld_key (s # ss) =
     (case ti_ld_key (pre_device_truncation s) of
        None \<Rightarrow> min_safe_ld_key ss
      | Some key \<Rightarrow>
          (case min_safe_ld_key ss of
             None \<Rightarrow> Some key
           | Some key' \<Rightarrow> Some (min key key')))"

text \<open>
  Modelled from the spec: the log device as far as truncation goes, the key up to
  which its space was reclaimed and the stores that share it, and one round of the
  protocol.
\<close>

record 'k LogDev =
  ld_truncated_key :: "'k option"
  ld_stores :: "'k HomeLogStore list"

definition device_truncate :: "'k::linorder LogDev \<Rightarrow> 'k LogDev" where
  "device_truncate dev =
     (case min_safe_ld_key (ld_stores dev) of
        None \<Rightarrow> dev
      | Some min_key \<Rightarrow>
          dev\<lparr>ld_truncated_key := Some min_key,
              ld_stores := map (post_device_truncation min_key) (ld_stores dev)\<rparr>)"

section \<open>Concrete configurations\<close>

text \<open>
  A small fleet for evaluating the definitions: two devices with 2 GiB in total and
  4 KiB pages, and a superblock allocator that hands out the next free bytes of
  the store.
\<close>

definition demo_alloc :: blk_allocator where
  "demo_alloc sb sz hints =
     (if is_contiguous hints \<and> unat (bs_used_size sb) + unat sz \<le> unat (bs_size sb)
      then (SUCCESS, BlkId_at 0 (unat (bs_used_size sb)) (unat sz), bs_used_size sb + sz)
      else (ALLOC_FAILED 1, BlkId_invalid, bs_used_size sb))"

definition demo_attr :: drive_attributes where
  "demo_attr = \<lparr>phys_page_size = 4096, atomic_phys_page_size = 4096\<rparr>"

definition demo_input :: hs_input_params where
  "demo_input = \<lparr>devices = [''/dev/a'', ''/dev/b''], drive_attr_override = Some demo_attr,
                  min_virtual_page_size = 4096, is_restricted_mode = False\<rparr>"

definition demo_X :: externals where
  "demo_X = \<lparr>MIN_DISK_CAP_SUPPORTED = 1048576, MAX_SUPPORTED_CAP = 1125899906842624,
              META_BLK_PAGE_SZ = 4096, asserts_abort = True, alloc_contiguous_blk = demo_alloc,
              probe_drive_attrs = (\<lambda>devs. demo_attr),
              the_media = \<lparr>media_total_cap = 2147483648, media_vdevs = None\<rparr>\<rparr>"

definition demo_cfg0 :: hs_static_config where
  "demo_cfg0 = \<lparr>cfg_input = \<lparr>devices = [], drive_attr_override = None, min_virtual_page_size = 0,
                               is_restricted_mode = False\<rparr>,
                 cfg_drive_attr = \<lparr>phys_page_size = 0, atomic_phys_page_size = 0\<rparr>,
                 cfg_min_io_size = 0\<rparr>"

text \<open>The facade after \<^verbatim>\<open>init(demo_input)\<close>.\<close>

definition demo_hs :: homestore where
  "demo_hs = state_of (init demo_X demo_input (HomeStore_new demo_cfg0))"

text \<open>The facade after \<^verbatim>\<open>init_devices()\<close> on the fresh fleet.\<close>

definition demo_booted :: homestore where
  "demo_booted = state_of (init_devices demo_X demo_hs)"

text \<open>The booted facade after 4 KiB of data and 8 KiB of index were allocated.\<close>

definition demo_in_use :: homestore where
  "demo_in_use =
     demo_booted
       \<lparr>m_data_blk_store := map_option (\<lambda>d. d\<lparr>bs_used_size := 4096\<rparr>) (m_data_blk_store demo_booted),
        m_index_blk_store := map_option (\<lambda>i. i\<lparr>bs_used_size := 8192\<rparr>) (m_index_blk_store demo_booted)\<rparr>"

text \<open>
  The same fleet found initialised: a catalog of a DATA, an INDEX and a META record,
  with the INDEX record optionally marked failed and the META record carrying a
  given block id behind its type tag.
\<close>

definition demo_vb :: "blkstore_type \<Rightarrow> BlkId \<Rightarrow> bool \<Rightarrow> vdev_info_block" where
  "demo_vb t bid failed =
     \<lparr>vb_vdev_id = unat (blkstore_type_val t), vb_size = 1048576, vb_used = 0,
      vb_context_type = blkstore_type_val t, vb_context_blkid = bid, vb_failed = failed\<rparr>"

definition demo_catalog :: "bool \<Rightarrow> BlkId \<Rightarrow> vdev_info_block list" where
  "demo_catalog index_failed meta_bid =
     [demo_vb DATA_STORE BlkId_invalid False, demo_vb INDEX_STORE BlkId_invalid index_failed,
      demo_vb META_STORE meta_bid False]"

definition demo_X_with :: "vdev_info_block list \<Rightarrow> externals" where
  "demo_X_with catalog =
     demo_X\<lparr>the_media := \<lparr>media_total_cap = 2147483648, media_vdevs = Some catalog\<rparr>\<rparr>"

definition demo_X_reattach :: "bool \<Rightarrow> BlkId \<Rightarrow> externals" where
  "demo_X_reattach index_failed meta_bid = demo_X_with (demo_catalog index_failed meta_bid)"

text \<open>The facade after \<^verbatim>\<open>init_devices()\<close> on the initialised fleet, all records healthy.\<close>

definition demo_reattached :: homestore where
  "demo_reattached = state_of (init_devices (demo_X_reattach False (BlkId_at 0 0 4096)) demo_hs)"

text \<open>A stream tracker: sequence numbers 0, 1 and 3 completed, 2 gap-filled, 4 and 5 issued, 6 empty, 7 completed.\<close>

definition demo_tracker :: stream_tracker where
  "demo_tracker =
     \<lparr>st_floor = 0,
      st_slots = [COMPLETED, COMPLETED, GAP_FILLED, COMPLETED, ISSUED, ISSUED, EMPTY, COMPLETED]\<rparr>"

text \<open>
  Three log stores on one log device, keys being numbers: store 11 is truncated up
  to sequence number 100 and has a barrier there with key 10, store 12 up to 50
  with barriers at 50 (key 5) and 60 (key 7); store 13 has no barrier yet.
\<close>

definition demo_store :: "nat \<Rightarrow> int \<Rightarrow> (int \<times> nat) list \<Rightarrow> nat HomeLogStore" where
  "demo_store sid trunc barriers =
     \<lparr>m_store_id = sid, m_records = \<lparr>st_floor = trunc + 1, st_slots = []\<rparr>, m_seq_num = trunc + 1,
      m_flush_batch_max_lsn = trunc, m_truncation_barriers = barriers,
      m_safe_truncation_boundary = \<lparr>ti_seq_num = trunc, ti_ld_key = None\<rparr>\<rparr>"

definition demo_logdev :: "nat LogDev" where
  "demo_logdev =
     \<lparr>ld_truncated_key = None,
      ld_stores = [demo_store 11 100 [(100, 10)], demo_store 12 50 [(50, 5), (60, 7)],
                   demo_store 13 (- 1) []]\<rparr>"

section \<open>Properties of the log store\<close>

subsection \<open>The contiguity scan\<close>

lemma contiguous_upto_ge: "k \<le> contiguous_upto c tr k"
proof (induction c tr k rule: contiguous_upto.induct)
  case (1 c tr k)
  show ?case
  proof (cases "slot_matches c (slot_status_at tr (k + 1))")
    case True
    with "1.IH" have "k + 1 \<le> contiguous_upto c tr (k + 1)" by simp
    moreover from True have "contiguous_upto c tr k = contiguous_upto c tr (k + 1)"
      by (subst contiguous_upto.simps) simp
    ultimately show ?thesis by simp
  next
    case False
    then have "contiguous_upto c tr k = k"
      by (subst contiguous_upto.simps) simp
    then show ?thesis by simp
  qed
qed

lemma contiguous_upto_all:
  "k < j \<Longrightarrow> j \<le> contiguous_upto c tr k \<Longrightarrow> slot_matches c (slot_status_at tr j)"
proof (induction c tr k rule: contiguous_upto.induct)
  case (1 c tr k)
  show ?case
  proof (cases "slot_matches c (slot_status_at tr (k + 1))")
    case True
    show ?thesis
    proof (cases "j = k + 1")
      case True
      with \<open>slot_matches c (slot_status_at tr (k + 1))\<close> show ?thesis by simp
    next
      case False
      with "1.prems" have "k + 1 < j" by simp
      moreover from True "1.prems" have "j \<le> contiguous_upto c tr (k + 1)"
        by (subst (asm) contiguous_upto.simps) simp
      ultimately show ?thesis using "1.IH" True by simp
    qed
  next
    case False
    with "1.prems" show ?thesis
      by (subst (asm) contiguous_upto.simps) simp
  qed
qed

lemma contiguous_upto_stops:
  "\<not> slot_matches c (slot_status_at tr (contiguous_upto c tr k + 1))"
proof (induction c tr k rule: contiguous_upto.induct)
  case (1 c tr k)
  show ?case
  proof (cases "slot_matches c (slot_status_at tr (k + 1))")
    case True
    moreover from True have "contiguous_upto c tr k = contiguous_upto c tr (k + 1)"
      by (subst contiguous_upto.simps) simp
    ultimately show ?thesis using "1.IH" by simp
  next
    case False
    moreover from False have "contiguous_upto c tr k = k"
      by (subst contiguous_upto.simps) simp
    ultimately show ?thesis by simp
  qed
qed

lemma contiguous_upto_largest:
  assumes "from \<le> k'" and "\<forall>j. from < j \<and> j \<le> k' \<longrightarrow> slot_matches c (slot_status_at tr j)"
  shows "k' \<le> contiguous_upto c tr from"
proof (rule ccontr)
  assume "\<not> k' \<le> contiguous_upto c tr from"
  then have "contiguous_upto c tr from + 1 \<le> k'" by simp
  moreover have "from < contiguous_upto c tr from + 1"
    using contiguous_upto_ge [of "from" c tr] by simp
  ultimately have "slot_matches c (slot_status_at tr (contiguous_upto c tr from + 1))"
    using assms(2) by blast
  with contiguous_upto_stops show False by blast
qed

text \<open>
  Claim C1.  For every log store and every sequence number \<open>from\<close>,
  \<^verbatim>\<open>get_contiguous_completed_seq_num(from)\<close> returns a value \<open>k\<close> at or above \<open>from\<close>,
  every slot in the half-open range \<open>(from, k]\<close> is COMPLETED or GAP-FILLED, and \<open>k\<close> is
  the largest such value; \<^verbatim>\<open>get_contiguous_issued_seq_num(from)\<close> has the same three
  properties with the status ISSUED.  Both functions are total: the scan
  terminates on every tracker.
\<close>

theorem contiguous_seq_num_correct:
  "from \<le> get_contiguous_completed_seq_num tr from
   \<and> (\<forall>j. from < j \<and> j \<le> get_contiguous_completed_seq_num tr from
           \<longrightarrow> slot_status_at tr j = COMPLETED \<or> slot_status_at tr j = GAP_FILLED)
   \<and> (\<forall>k'. from \<le> k'
           \<and> (\<forall>j. from < j \<and> j \<le> k'
                   \<longrightarrow> slot_status_at tr j = COMPLETED \<or> slot_status_at tr j = GAP_FILLED)
           \<longrightarrow> k' \<le> get_contiguous_completed_seq_num tr from)
   \<and> from \<le> get_contiguous_issued_seq_num tr from
   \<and> (\<forall>j. from < j \<and> j \<le> get_contiguous_issued_seq_num tr from \<longrightarrow> slot_status_at tr j = ISSUED)
   \<and> (\<forall>k'. from \<le> k' \<and> (\<forall>j. from < j \<and> j \<le> k' \<longrightarrow> slot_status_at tr j = ISSUED)
           \<longrightarrow> k' \<le> get_contiguous_issued_seq_num tr from)"
proof -
  have c1: "from \<le> get_contiguous_completed_seq_num tr from"
    by (simp add: get_contiguous_completed_seq_num_def contiguous_upto_ge)
  have c2: "\<forall>j. from < j \<and> j \<le> get_contiguous_completed_seq_num tr from
           \<longrightarrow> slot_status_at tr j = COMPLETED \<or> slot_status_at tr j = GAP_FILLED"
    using contiguous_upto_all [of "from" _ True tr]
    by (simp add: get_contiguous_completed_seq_num_def slot_matches_def)
  have c3: "\<forall>k'. from \<le> k'
           \<and> (\<forall>j. from < j \<and> j \<le> k'
                   \<longrightarrow> slot_status_at tr j = COMPLETED \<or> slot_status_at tr j = GAP_FILLED)
           \<longrightarrow> k' \<le> get_contiguous_completed_seq_num tr from"
    using contiguous_upto_largest [of "from" _ True tr]
    by (simp add: get_contiguous_completed_seq_num_def slot_matches_def)
  have i1: "from \<le> get_contiguous_issued_seq_num tr from"
    by (simp add: get_contiguous_issued_seq_num_def contiguous_upto_ge)
  have i2: "\<forall>j. from < j \<and> j \<le> get_contiguous_issued_seq_num tr from
           \<longrightarrow> slot_status_at tr j = ISSUED"
    using contiguous_upto_all [of "from" _ False tr]
    by (simp add: get_contiguous_issued_seq_num_def slot_matches_def)
  have i3: "\<forall>k'. from \<le> k' \<and> (\<forall>j. from < j \<and> j \<le> k' \<longrightarrow> slot_status_at tr j = ISSUED)
           \<longrightarrow> k' \<le> get_contiguous_issued_seq_num tr from"
    using contiguous_upto_largest [of "from" _ False tr]
    by (simp add: get_contiguous_issued_seq_num_def slot_matches_def)
  from c1 c2 c3 i1 i2 i3 show ?thesis by blast
qed

text \<open>
  The theorem at the demo tracker: from \<open>-1\<close> the completed watermark is 3 (the gap at
  2 is filled, the slot at 4 is only issued), and from 3 the issued watermark is 5.
\<close>

theorem contiguous_seq_num_correct_witness:
  "get_contiguous_completed_seq_num demo_tracker (- 1) = 3
   \<and> (- 1 :: int) < 2 \<and> 2 \<le> get_contiguous_completed_seq_num demo_tracker (- 1)
   \<and> (slot_status_at demo_tracker 2 = COMPLETED \<or> slot_status_at demo_tracker 2 = GAP_FILLED)
   \<and> get_contiguous_issued_seq_num demo_tracker 3 = 5
   \<and> (3 :: int) < 5 \<and> 5 \<le> get_contiguous_issued_seq_num demo_tracker 3
   \<and> slot_status_at demo_tracker 5 = ISSUED"
proof -
  have c: "get_contiguous_completed_seq_num demo_tracker (- 1) = 3"
    by (simp add: get_contiguous_completed_seq_num_def demo_tracker_def contiguous_upto.simps
          slot_matches_def slot_status_at_def)
  have i: "get_contiguous_issued_seq_num demo_tracker 3 = 5"
    by (simp add: get_contiguous_issued_seq_num_def demo_tracker_def contiguous_upto.simps
          slot_matches_def slot_status_at_def)
  from contiguous_seq_num_correct [of "- 1" demo_tracker] c
  have "slot_status_at demo_tracker 2 = COMPLETED \<or> slot_status_at demo_tracker 2 = GAP_FILLED"
    by simp
  moreover from contiguous_seq_num_correct [of 3 demo_tracker] i
  have "slot_status_at demo_tracker 5 = ISSUED"
    by simp
  ultimately show ?thesis using c i by simp
qed

subsection \<open>The safe-truncation protocol\<close>

lemma min_safe_ld_key_le:
  "min_safe_ld_key ss = Some t \<Longrightarrow> s \<in> set ss \<Longrightarrow>
   ti_ld_key (pre_device_truncation s) = Some b \<Longrightarrow> t \<le> b"
proof (induction ss arbitrary: t)
  case Nil
  then show ?case by simp
next
  case (Cons a ss)
  show ?case
  proof (cases "ti_ld_key (pre_device_truncation a)")
    case None
    with Cons.prems have "min_safe_ld_key ss = Some t" and "s \<in> set ss"
      by auto
    with Cons.IH Cons.prems(3) show ?thesis by blast
  next
    case (Some ka)
    show ?thesis
    proof (cases "min_safe_ld_key ss")
      case None
      with Some Cons.prems(1) have t: "t = ka" by simp
      show ?thesis
      proof (cases "s = a")
        case True
        with Some Cons.prems(3) t show ?thesis by simp
      next
        case False
        with Cons.prems(2) have "s \<in> set ss" by simp
        with None Cons.prems(3) have False
          by (induction ss) (auto split: option.splits)
        then show ?thesis ..
      qed
    next
      case (Some kr)
      with \<open>ti_ld_key (pre_device_truncation a) = Some ka\<close> Cons.prems(1)
      have t: "t = min ka kr" by simp
      show ?thesis
      proof (cases "s = a")
        case True
        with \<open>ti_ld_key (pre_device_truncation a) = Some ka\<close> Cons.prems(3) t
        show ?thesis by simp
      next
        case False
        with Cons.prems(2) have "s \<in> set ss" by simp
        with Cons.IH [OF Some] Cons.prems(3) have "kr \<le> b" by blast
        with t show ?thesis by (simp add: min_le_iff_disj)
      qed
    qed
  qed
qed

lemma min_safe_ld_key_mem:
  "min_safe_ld_key ss = Some t \<Longrightarrow> \<exists>s\<in>set ss. ti_ld_key (pre_device_truncation s) = Some t"
proof (induction ss arbitrary: t)
  case Nil
  then show ?case by simp
next
  case (Cons a ss)
  then show ?case
    by (auto split: option.splits simp: min_def)
qed

lemma min_safe_ld_key_None:
  "min_safe_ld_key ss = None \<longleftrightarrow> (\<forall>s\<in>set ss. ti_ld_key (pre_device_truncation s) = None)"
  by (induction ss) (auto split: option.splits)

text \<open>
  Claim C2.  For every set of log stores sharing one log device, a round of the
  global truncation protocol truncates the device at a key that is the safe
  boundary returned by \<^verbatim>\<open>pre_device_truncation\<close> of one of the stores and lies at or
  below the boundary of every store that returned a valid one: the device-side
  truncation point never goes beyond the minimum of the per-store boundaries.  When
  every store returns an invalid boundary (no flushed records since the last
  truncation), the round truncates nothing.
\<close>

theorem device_truncate_at_min_boundary:
  "(if \<forall>s\<in>set (ld_stores dev). ti_ld_key (pre_device_truncation s) = None
    then device_truncate dev = dev
    else \<exists>t. ld_truncated_key (device_truncate dev) = Some t
           \<and> (\<exists>s\<in>set (ld_stores dev). ti_ld_key (pre_device_truncation s) = Some t)
           \<and> (\<forall>s\<in>set (ld_stores dev). \<forall>b. ti_ld_key (pre_device_truncation s) = Some b \<longrightarrow> t \<le> b))"
proof (cases "min_safe_ld_key (ld_stores dev)")
  case None
  then have "device_truncate dev = dev"
    by (simp add: device_truncate_def)
  moreover from None have "\<forall>s\<in>set (ld_stores dev). ti_ld_key (pre_device_truncation s) = None"
    by (simp add: min_safe_ld_key_None)
  ultimately show ?thesis by simp
next
  case (Some t)
  then have ne: "\<not> (\<forall>s\<in>set (ld_stores dev). ti_ld_key (pre_device_truncation s) = None)"
    using min_safe_ld_key_None [of "ld_stores dev"] by simp
  have "ld_truncated_key (device_truncate dev) = Some t"
    using Some by (simp add: device_truncate_def)
  moreover have "\<exists>s\<in>set (ld_stores dev). ti_ld_key (pre_device_truncation s) = Some t"
    using Some by (rule min_safe_ld_key_mem)
  moreover have "\<forall>s\<in>set (ld_stores dev). \<forall>b. ti_ld_key (pre_device_truncation s) = Some b \<longrightarrow> t \<le> b"
    using Some min_safe_ld_key_le by blast
  ultimately show ?thesis using ne by auto
qed


text \<open>
  The boundaries of the three demo stores: keys 10 and 5, and an invalid one.  The
  round truncates the device at key 5, not at 10.
\<close>

lemma demo_pre:
  "ti_ld_key (pre_device_truncation (demo_store 11 100 [(100, 10)])) = Some 10"
  "ti_ld_key (pre_device_truncation (demo_store 12 50 [(50, 5), (60, 7)])) = Some 5"
  "ti_ld_key (pre_device_truncation (demo_store 13 (- 1) [])) = None"
  by (simp_all add: pre_device_truncation_def demo_store_def truncated_upto_def INT64_MAX_def)

theorem device_truncate_at_min_boundary_witness:
  "ld_truncated_key (device_truncate demo_logdev) = Some 5
   \<and> demo_store 11 100 [(100, 10)] \<in> set (ld_stores demo_logdev)
   \<and> ti_ld_key (pre_device_truncation (demo_store 11 100 [(100, 10)])) = Some 10
   \<and> demo_store 12 50 [(50, 5), (60, 7)] \<in> set (ld_stores demo_logdev)
   \<and> ti_ld_key (pre_device_truncation (demo_store 12 50 [(50, 5), (60, 7)])) = Some 5
   \<and> ti_ld_key (pre_device_truncation (demo_store 13 (- 1) [])) = None
   \<and> (5 :: nat) \<le> 10"
proof -
  have m: "min_safe_ld_key (ld_stores demo_logdev) = Some 5"
    by (simp add: demo_logdev_def demo_pre)
  have t: "ld_truncated_key (device_truncate demo_logdev) = Some 5"
    using m by (simp add: device_truncate_def)
  have s1: "demo_store 11 100 [(100, 10)] \<in> set (ld_stores demo_logdev)"
    by (simp add: demo_logdev_def)
  have s2: "demo_store 12 50 [(50, 5), (60, 7)] \<in> set (ld_stores demo_logdev)"
    by (simp add: demo_logdev_def)
  from device_truncate_at_min_boundary [of demo_logdev] s1 demo_pre(1) t
  have "(5 :: nat) \<le> 10" by simp
  with t s1 s2 demo_pre show ?thesis by simp
qed

section \<open>Properties of the engine facade\<close>

subsection \<open>The frame of the vdev-found dispatch\<close>

lemma new_vdev_found_frame:
  "vb_context_type vb \<noteq> blkstore_type_val t \<Longrightarrow>
   store_of t (state_of (new_vdev_found X vb hs)) = store_of t hs"
  by (cases t)
     (simp_all add: new_vdev_found_def create_data_blkstore_def create_index_blkstore_def
        create_sb_blkstore_def create_logdev_blkstore_def create_meta_blkstore_def
        hs_assert_def Let_def)

lemma dispatch_vdevs_frame:
  "blkstore_type_val t \<notin> vb_context_type ` set vbs \<Longrightarrow>
   store_of t (state_of (dispatch_vdevs X vbs hs)) = store_of t hs"
proof (induction vbs arbitrary: hs)
  case Nil
  then show ?case by simp
next
  case (Cons vb vbs)
  from Cons.prems have ne: "vb_context_type vb \<noteq> blkstore_type_val t"
    and rest: "blkstore_type_val t \<notin> vb_context_type ` set vbs"
    by auto
  show ?case
  proof (cases "new_vdev_found X vb hs")
    case (Inl x)
    with new_vdev_found_frame [OF ne, of X hs] show ?thesis
      by (cases x) simp
  next
    case (Inr hs')
    with new_vdev_found_frame [OF ne, of X hs] Cons.IH [OF rest, of hs'] show ?thesis
      by simp
  qed
qed

lemma dispatch_vdevs_append:
  "dispatch_vdevs X (pre @ post) hs = and_then (dispatch_vdevs X pre hs) (dispatch_vdevs X post)"
proof (induction pre arbitrary: hs)
  case Nil
  then show ?case by simp
next
  case (Cons vb pre)
  then show ?case by (cases "new_vdev_found X vb hs") simp_all
qed

lemma new_vdev_found_failed:
  assumes "vb_failed vb" and "vb_context_type vb = blkstore_type_val t"
  shows "new_vdev_found X vb hs =
           Inl (Runtime_error ''vdev in failed state'', state_of (new_vdev_found X vb hs))
         \<and> m_vdev_failed (state_of (new_vdev_found X vb hs))"
  using assms
  by (cases t)
     (simp_all add: new_vdev_found_def create_data_blkstore_def create_index_blkstore_def
        create_sb_blkstore_def create_logdev_blkstore_def create_meta_blkstore_def Let_def)

subsection \<open>First boot\<close>

lemma create_all_blkstores_result:
  assumes dm: "m_dev_mgr hs = Some dm" and ok: "create_all_blkstores X hs = Inr hs'"
  shows "\<exists>s. store_of t hs' = Some s
           \<and> bs_cache_type s = spec_caching t
           \<and> bs_mirrors s = (if t = SB_STORE then of_nat (length (devices (cfg_input (hs_config hs)))) - 1 else 0)
           \<and> bs_page_size s = spec_page_size (m_data_pagesz hs)
                 (atomic_phys_page_size (cfg_drive_attr (hs_config hs))) (META_BLK_PAGE_SZ X) t
           \<and> bs_size s = round_up (of_nat (spec_share t) * dm_total_cap dm div 100)
                 (phys_page_size (cfg_drive_attr (hs_config hs)))
           \<and> bs_vb s = None
           \<and> (if t = SB_STORE then \<exists>b. bs_context s = Some (Sb_blkstore_blob SB_STORE b)
               else bs_context s = Some (Blkstore_blob t))"
proof -
  obtain ret bid used where a: "alloc_contiguous_blk X (BlkStore_create
     (round_up (dm_total_cap dm div 100) (phys_page_size (cfg_drive_attr (hs_config hs)))) PASS_THRU
     (of_nat (length (devices (cfg_input (hs_config hs)))) - 1) (Sb_blkstore_blob SB_STORE BlkId_invalid)
        (atomic_phys_page_size (cfg_drive_attr (hs_config hs))) ''superblock'' False False)
        (atomic_phys_page_size (cfg_drive_attr (hs_config hs)))
        \<lparr>desired_temp = 0, dev_id_hint = - 1, is_contiguous = True\<rparr> = (ret, bid, used)"
    by (metis prod_cases3)
  show ?thesis
    using dm ok a
    by (cases t)
       (auto simp add: create_all_blkstores_def create_data_blkstore_def create_index_blkstore_def
        create_sb_blkstore_def create_logdev_blkstore_def create_meta_blkstore_def alloc_sb_blk_def
        Let_def BlkStore_create_def update_vb_context_def split: if_splits)
qed

lemma create_all_blkstores_config:
  assumes ok: "create_all_blkstores X hs = Inr hs'"
  shows "hs_config hs' = hs_config hs \<and> m_data_pagesz hs' = m_data_pagesz hs"
  using ok
  by (auto simp add: create_all_blkstores_def create_data_blkstore_def create_index_blkstore_def
        create_sb_blkstore_def create_logdev_blkstore_def create_meta_blkstore_def alloc_sb_blk_def
        Let_def split: if_splits option.splits sum.splits prod.splits)

lemma create_all_blkstores_sb:
  assumes dm: "m_dev_mgr hs = Some dm" and ok: "create_all_blkstores X hs = Inr hs'"
  shows "(let sb = BlkStore_create
                     (round_up (dm_total_cap dm div 100) (phys_page_size (cfg_drive_attr (hs_config hs))))
                     PASS_THRU (of_nat (length (devices (cfg_input (hs_config hs)))) - 1)
                     (Sb_blkstore_blob SB_STORE BlkId_invalid)
                     (atomic_phys_page_size (cfg_drive_attr (hs_config hs))) ''superblock'' False False;
              a = alloc_contiguous_blk X sb (atomic_phys_page_size (cfg_drive_attr (hs_config hs)))
                    \<lparr>desired_temp = 0, dev_id_hint = - 1, is_contiguous = True\<rparr>
          in fst a = SUCCESS
             \<and> m_sb_blk_store hs' =
                 Some (update_vb_context (Sb_blkstore_blob SB_STORE (fst (snd a)))
                         (sb\<lparr>bs_used_size := snd (snd a)\<rparr>)))"
proof -
  obtain ret bid used where a: "alloc_contiguous_blk X (BlkStore_create
     (round_up (dm_total_cap dm div 100) (phys_page_size (cfg_drive_attr (hs_config hs)))) PASS_THRU
     (of_nat (length (devices (cfg_input (hs_config hs)))) - 1) (Sb_blkstore_blob SB_STORE BlkId_invalid)
        (atomic_phys_page_size (cfg_drive_attr (hs_config hs))) ''superblock'' False False)
        (atomic_phys_page_size (cfg_drive_attr (hs_config hs)))
        \<lparr>desired_temp = 0, dev_id_hint = - 1, is_contiguous = True\<rparr> = (ret, bid, used)"
    by (metis prod_cases3)
  show ?thesis
    using dm ok a
    by (auto simp add: create_all_blkstores_def create_data_blkstore_def create_index_blkstore_def
        create_sb_blkstore_def create_logdev_blkstore_def create_meta_blkstore_def alloc_sb_blk_def
        Let_def split: if_splits)
qed

lemma and_then_Inr:
  "and_then r f = Inr hs' \<longleftrightarrow> (\<exists>hsa. r = Inr hsa \<and> f hsa = Inr hs')"
  by (cases r) auto

lemma init_devices_first_boot:
  assumes first: "media_vdevs (the_media X) = None" and boot: "init_devices X hs = Inr hs'"
  shows "\<exists>dm hsa dm'. m_dev_mgr hs = Some dm
           \<and> create_all_blkstores X (hs\<lparr>m_dev_mgr := Some (attach_devices X True dm)\<rparr>) = Inr hsa
           \<and> m_dev_mgr hsa = Some dm'
           \<and> hs' = hsa\<lparr>m_dev_mgr := Some (dm'\<lparr>dm_init_done := True\<rparr>),
                       resource_total_cap := dm_total_cap dm'\<rparr>"
  using first boot
  by (auto simp add: init_devices_def add_devices_def hs_assert_def Let_def and_then_Inr
        split: option.splits sum.splits if_splits)

lemma init_Inr:
  assumes "init X input hs0 = Inr hs1"
  shows "devices input \<noteq> [] \<and> cfg_input (hs_config hs1) = input
         \<and> m_data_pagesz hs1 = min_virtual_page_size input \<and> (\<exists>dm. m_dev_mgr hs1 = Some dm)"
  using assms by (auto simp add: init_def Let_def split: if_splits)

subsection \<open>Evaluating the demo fleet\<close>

lemmas facade_defs =
  init_devices_def init_def add_devices_def attach_devices_def HomeStore_new_def
  create_all_blkstores_def create_data_blkstore_def create_index_blkstore_def
  create_sb_blkstore_def create_logdev_blkstore_def create_meta_blkstore_def hs_assert_def
  alloc_sb_blk_def round_up_def BlkStore_create_def BlkStore_load_def update_vb_context_def
  new_vdev_found_def is_valid_def

lemmas demo_defs =
  demo_X_def demo_input_def demo_cfg0_def demo_alloc_def demo_attr_def demo_hs_def

lemma demo_init: "init demo_X demo_input (HomeStore_new demo_cfg0) = Inr demo_hs"
  by (simp add: demo_hs_def init_def demo_input_def)

lemma demo_first_boot: "init_devices demo_X demo_hs = Inr demo_booted"
  by (simp add: demo_booted_def facade_defs demo_defs Let_def)

lemma demo_booted_stores:
  "m_data_blk_store demo_booted =
     Some (BlkStore_create 1932738560 WRITEBACK_CACHE 0 (Blkstore_blob DATA_STORE) 4096 ''data'' True True)"
  "m_index_blk_store demo_booted =
     Some (BlkStore_create 42950656 RD_MODIFY_WRITEBACK_CACHE 0 (Blkstore_blob INDEX_STORE) 4096
             ''index'' True False)"
  "m_sb_blk_store demo_booted =
     Some ((BlkStore_create 21475328 PASS_THRU 1 (Sb_blkstore_blob SB_STORE (BlkId_at 0 0 4096)) 4096
              ''superblock'' False False)\<lparr>bs_used_size := 4096\<rparr>)"
  "m_logdev_blk_store demo_booted =
     Some (BlkStore_create 21475328 PASS_THRU 0 (Blkstore_blob LOGDEV_STORE) 4096 ''logdev'' False True)"
  "m_meta_blk_store demo_booted =
     Some (BlkStore_create 21475328 PASS_THRU 0 (Blkstore_blob META_STORE) 4096 ''meta'' False False)"
  by (simp_all add: demo_booted_def facade_defs demo_defs Let_def)

subsection \<open>Capacity, superblock allocation and recovery-done forwarding\<close>

text \<open>
  Claim C10.  In every state with the data and the index store constructed,
  \<^verbatim>\<open>get_system_capacity()\<close> returns, and reports as \<^verbatim>\<open>used_total_size\<close> the sum of the used
  sizes of the data and the index store and as \<^verbatim>\<open>initial_total_size\<close> the sum of their
  total sizes.  The sums are the 64-bit sums of the source; they are the exact sums
  of the numbers whenever these fit into 64 bits.  The superblock, logdev and meta
  stores do not enter: replacing them by anything leaves the report unchanged.
\<close>

theorem get_system_capacity_totals:
  assumes "m_data_blk_store hs = Some d" and "m_index_blk_store hs = Some i"
  shows "\<exists>cap. get_system_capacity hs = Inr cap
           \<and> used_total_size cap = get_used_size d + get_used_size i
           \<and> initial_total_size cap = get_size d + get_size i
           \<and> (unat (get_used_size d) + unat (get_used_size i) < 2 ^ 64 \<longrightarrow>
                unat (used_total_size cap) = unat (get_used_size d) + unat (get_used_size i))
           \<and> (unat (get_size d) + unat (get_size i) < 2 ^ 64 \<longrightarrow>
                unat (initial_total_size cap) = unat (get_size d) + unat (get_size i))
           \<and> get_system_capacity
                (hs\<lparr>m_sb_blk_store := sb, m_logdev_blk_store := ld, m_meta_blk_store := mt\<rparr>) = Inr cap"
proof -
  have u: "unat (get_used_size d) + unat (get_used_size i) < 2 ^ 64 \<longrightarrow>
             unat (get_used_size d + get_used_size i) = unat (get_used_size d) + unat (get_used_size i)"
    using unat_add_lem [of "get_used_size d" "get_used_size i"] by simp
  have t: "unat (get_size d) + unat (get_size i) < 2 ^ 64 \<longrightarrow>
             unat (get_size d + get_size i) = unat (get_size d) + unat (get_size i)"
    using unat_add_lem [of "get_size d" "get_size i"] by simp
  from assms u t show ?thesis
    by (simp add: get_system_capacity_def Let_def)
qed

text \<open>The report of the demo fleet with 4 KiB of data and 8 KiB of index in use.\<close>

theorem get_system_capacity_totals_witness:
  "get_system_capacity demo_in_use =
     Inr \<lparr>used_data_size = 4096, used_index_size = 8192, used_total_size = 12288,
          initial_total_size = 1975689216\<rparr>
   \<and> get_system_capacity (demo_in_use\<lparr>m_sb_blk_store := None, m_logdev_blk_store := None,
                                         m_meta_blk_store := None\<rparr>)
       = get_system_capacity demo_in_use"
proof -
  have d: "m_data_blk_store demo_in_use =
     Some ((BlkStore_create 1932738560 WRITEBACK_CACHE 0 (Blkstore_blob DATA_STORE) 4096 ''data'' True True)
             \<lparr>bs_used_size := 4096\<rparr>)"
    by (simp add: demo_in_use_def demo_booted_stores)
  have i: "m_index_blk_store demo_in_use =
     Some ((BlkStore_create 42950656 RD_MODIFY_WRITEBACK_CACHE 0 (Blkstore_blob INDEX_STORE) 4096
             ''index'' True False)\<lparr>bs_used_size := 8192\<rparr>)"
    by (simp add: demo_in_use_def demo_booted_stores)
  from get_system_capacity_totals [OF d i, of None None None]
  obtain cap where c: "get_system_capacity demo_in_use = Inr cap"
    and u: "used_total_size cap = 12288" and t: "initial_total_size cap = 1975689216"
    and f: "get_system_capacity (demo_in_use\<lparr>m_sb_blk_store := None, m_logdev_blk_store := None,
                                         m_meta_blk_store := None\<rparr>) = Inr cap"
    by (auto simp add: get_used_size_def get_size_def BlkStore_create_def)
  have "get_system_capacity demo_in_use =
     Inr \<lparr>used_data_size = 4096, used_index_size = 8192, used_total_size = 12288,
          initial_total_size = 1975689216\<rparr>"
    using d i by (simp add: get_system_capacity_def get_used_size_def get_size_def BlkStore_create_def)
  with c f show ?thesis by simp
qed

text \<open>
  Claim C8.  For every size \<open>sz\<close>, \<^verbatim>\<open>alloc_sb_blk(sz)\<close> asks the allocator of the superblock
  store for \<open>sz\<close> bytes with the contiguous flag set (no temperature, no device
  preference).  If the allocator's status is not \<^verbatim>\<open>SUCCESS\<close> it throws the
  \<^verbatim>\<open>homestore_exception\<close> of kind \<^verbatim>\<open>space_not_avail\<close> and returns no block id;
  otherwise it returns the block id the allocator assigned.
\<close>

theorem alloc_sb_blk_outcome:
  assumes "m_sb_blk_store hs = Some sb"
      and "alloc_contiguous_blk X sb sz \<lparr>desired_temp = 0, dev_id_hint = - 1, is_contiguous = True\<rparr>
             = (ret, bid, used)"
  shows "alloc_sb_blk X sz hs =
           (if ret = SUCCESS
            then Inr (bid, hs\<lparr>m_sb_blk_store := Some (sb\<lparr>bs_used_size := used\<rparr>)\<rparr>)
            else Inl (Homestore_exception ''space not available'' space_not_avail,
                      hs\<lparr>m_sb_blk_store := Some (sb\<lparr>bs_used_size := used\<rparr>)\<rparr>))"
  using assms by (simp add: alloc_sb_blk_def Let_def)

text \<open>
  On the booted demo fleet a second page of the superblock store is allocated
  behind the root block; a request for the size of the whole store fails.
\<close>

theorem alloc_sb_blk_outcome_witness:
  "alloc_sb_blk demo_X 4096 demo_booted =
     Inr (BlkId_at 0 4096 4096,
          demo_booted\<lparr>m_sb_blk_store :=
            Some ((BlkStore_create 21475328 PASS_THRU 1 (Sb_blkstore_blob SB_STORE (BlkId_at 0 0 4096)) 4096
                    ''superblock'' False False)\<lparr>bs_used_size := 8192\<rparr>)\<rparr>)
   \<and> alloc_sb_blk demo_X 21475328 demo_booted =
     Inl (Homestore_exception ''space not available'' space_not_avail, demo_booted)"
proof -
  let ?sb = "(BlkStore_create 21475328 PASS_THRU 1 (Sb_blkstore_blob SB_STORE (BlkId_at 0 0 4096)) 4096
              ''superblock'' False False)\<lparr>bs_used_size := 4096\<rparr>"
  have a1: "alloc_contiguous_blk demo_X ?sb 4096 \<lparr>desired_temp = 0, dev_id_hint = - 1, is_contiguous = True\<rparr>
              = (SUCCESS, BlkId_at 0 4096 4096, 8192)"
    by (simp add: demo_X_def demo_alloc_def BlkStore_create_def)
  have a2: "alloc_contiguous_blk demo_X ?sb 21475328 \<lparr>desired_temp = 0, dev_id_hint = - 1, is_contiguous = True\<rparr>
              = (ALLOC_FAILED 1, BlkId_invalid, 4096)"
    by (simp add: demo_X_def demo_alloc_def BlkStore_create_def)
  have same: "demo_booted\<lparr>m_sb_blk_store := Some (?sb\<lparr>bs_used_size := 4096\<rparr>)\<rparr> = demo_booted"
    using demo_booted_stores(3) by simp
  from alloc_sb_blk_outcome [OF demo_booted_stores(3) a1] alloc_sb_blk_outcome [OF demo_booted_stores(3) a2] same
  show ?thesis by simp
qed

text \<open>
  Claim C9.  \<^verbatim>\<open>data_recovery_done()\<close> calls \<^verbatim>\<open>recovery_done()\<close> of the data block store
  exactly when the boot is not a first-time boot, and \<^verbatim>\<open>indx_recovery_done()\<close> does
  the same for the index block store; the call is counted once on that store and
  nothing else changes.  On a first-time boot both functions return the state
  unchanged.
\<close>

theorem recovery_done_forwarding:
  assumes "m_dev_mgr hs = Some dm"
  shows "(if dm_first_time_boot dm
          then data_recovery_done hs = Inr hs \<and> indx_recovery_done hs = Inr hs
          else (\<forall>d. m_data_blk_store hs = Some d \<longrightarrow>
                    data_recovery_done hs = Inr (hs\<lparr>m_data_blk_store := Some (recovery_done d)\<rparr>)
                    \<and> bs_recovery_done_calls (recovery_done d) = Suc (bs_recovery_done_calls d))
             \<and> (\<forall>i. m_index_blk_store hs = Some i \<longrightarrow>
                    indx_recovery_done hs = Inr (hs\<lparr>m_index_blk_store := Some (recovery_done i)\<rparr>)
                    \<and> bs_recovery_done_calls (recovery_done i) = Suc (bs_recovery_done_calls i)))"
  using assms by (simp add: data_recovery_done_def indx_recovery_done_def recovery_done_def)

subsection \<open>The arithmetic of the first-boot sizes\<close>

lemma len64: "LENGTH(64) = 64"
  by simp

lemma share_unat:
  assumes "p \<le> 90" and "90 * unat cap < 2 ^ 64"
  shows "unat ((of_nat p :: u64) * cap div 100) = p * unat cap div 100"
proof -
  from assms(1) have p: "unat (of_nat p :: u64) = p"
    by (simp add: unat_of_nat)
  from assms(1) have "p * unat cap \<le> 90 * unat cap"
    by (rule mult_le_mono1)
  from this assms(2) have "p * unat cap < 2 ^ 64"
    by (rule le_less_trans)
  then have "unat (of_nat p :: u64) * unat cap < 2 ^ LENGTH(64)"
    by (simp only: p len64)
  then have "unat ((of_nat p :: u64) * cap) = unat (of_nat p :: u64) * unat cap"
    by (simp only: unat_mult_lem)
  then have "unat ((of_nat p :: u64) * cap) = p * unat cap"
    by (simp only: p)
  then show ?thesis
    by (simp add: unat_div)
qed

lemma round_up_unat:
  assumes "m \<noteq> 0" and "unat n + unat m \<le> 2 ^ 64"
  shows "unat (round_up n m) = (unat n + unat m - 1) div unat m * unat m"
proof -
  from assms(1) have m0: "0 < unat m"
    by (simp add: unat_gt_0)
  from assms(1) have m1: "unat (m - 1) = unat m - 1"
    by (rule unat_minus_one)
  have "unat n + unat (m - 1) < 2 ^ LENGTH(64)"
    using assms(2) m0 m1 by simp
  then have s: "unat (n + (m - 1)) = unat n + unat m - 1"
    using unat_add_lem [of n "m - 1"] m0 m1 by simp
  have q: "unat ((n + (m - 1)) div m) = (unat n + unat m - 1) div unat m"
    by (simp add: unat_div s)
  have "(unat n + unat m - 1) div unat m * unat m \<le> unat n + unat m - 1"
    by simp
  also have "\<dots> < 2 ^ LENGTH(64)"
    using assms(2) m0 by simp
  finally have "unat ((n + (m - 1)) div m) * unat m < 2 ^ LENGTH(64)"
    using q by simp
  then have "unat ((n + (m - 1)) div m * m) = unat ((n + (m - 1)) div m) * unat m"
    by (simp only: unat_mult_lem)
  then have main: "unat ((n + (m - 1)) div m * m) = (unat n + unat m - 1) div unat m * unat m"
    by (simp only: q)
  have e: "n + m - 1 = n + (m - 1)"
    by simp
  show ?thesis
    unfolding round_up_def e by (rule main)
qed

lemma round_up_nat_bounds:
  fixes n m :: nat
  assumes "0 < m"
  shows "m dvd (n + m - 1) div m * m" and "n \<le> (n + m - 1) div m * m"
    and "(n + m - 1) div m * m < n + m"
proof -
  show "m dvd (n + m - 1) div m * m" by simp
  have d: "(n + m - 1) div m * m + (n + m - 1) mod m = n + m - 1"
    by simp
  have r: "(n + m - 1) mod m < m"
    using assms by simp
  from d r show "n \<le> (n + m - 1) div m * m"
    by linarith
  from d assms show "(n + m - 1) div m * m < n + m"
    by linarith
qed

subsection \<open>The demo fleet, attached again\<close>

lemma demo_reattach: "init_devices (demo_X_reattach False (BlkId_at 0 0 4096)) demo_hs = Inr demo_reattached"
  by (simp add: demo_reattached_def demo_X_reattach_def demo_X_with_def demo_catalog_def demo_vb_def
        facade_defs demo_defs Let_def)

lemma demo_dev_mgr:
  "m_dev_mgr demo_booted = Some \<lparr>dm_total_cap = 2147483648, dm_first_time_boot = True,
                                  dm_restricted = False, dm_init_done = True\<rparr>"
  "m_dev_mgr demo_reattached = Some \<lparr>dm_total_cap = 2147483648, dm_first_time_boot = False,
                                  dm_restricted = False, dm_init_done = True\<rparr>"
  "m_data_blk_store demo_reattached =
     Some (BlkStore_load (demo_vb DATA_STORE BlkId_invalid False) WRITEBACK_CACHE 4096 ''data'' False True True)"
  "m_index_blk_store demo_reattached =
     Some (BlkStore_load (demo_vb INDEX_STORE BlkId_invalid False) RD_MODIFY_WRITEBACK_CACHE 4096 ''index''
             False True False)"
  by (simp_all add: demo_booted_def demo_reattached_def demo_X_reattach_def demo_X_with_def demo_catalog_def demo_vb_def
        facade_defs demo_defs Let_def)

text \<open>
  On the freshly booted demo fleet neither call changes anything; on the reattached
  fleet each call is counted once on its store.
\<close>

theorem recovery_done_forwarding_witness:
  "data_recovery_done demo_booted = Inr demo_booted
   \<and> indx_recovery_done demo_booted = Inr demo_booted
   \<and> data_recovery_done demo_reattached =
       Inr (demo_reattached\<lparr>m_data_blk_store :=
              Some ((BlkStore_load (demo_vb DATA_STORE BlkId_invalid False) WRITEBACK_CACHE 4096 ''data''
                       False True True)\<lparr>bs_recovery_done_calls := 1\<rparr>)\<rparr>)
   \<and> indx_recovery_done demo_reattached =
       Inr (demo_reattached\<lparr>m_index_blk_store :=
              Some ((BlkStore_load (demo_vb INDEX_STORE BlkId_invalid False) RD_MODIFY_WRITEBACK_CACHE 4096
                       ''index'' False True False)\<lparr>bs_recovery_done_calls := 1\<rparr>)\<rparr>)"
  using recovery_done_forwarding [OF demo_dev_mgr(1)] recovery_done_forwarding [OF demo_dev_mgr(2)]
    demo_dev_mgr(3) demo_dev_mgr(4)
  by (simp add: recovery_done_def BlkStore_load_def)

subsection \<open>The first-boot parameters and sizes\<close>

lemma store_of_dev_mgr_update:
  "store_of t (hs\<lparr>m_dev_mgr := a, resource_total_cap := b\<rparr>) = store_of t hs"
  by (cases t) simp_all

text \<open>
  Claim C6.  On a first boot that \<^verbatim>\<open>init(input)\<close> and \<^verbatim>\<open>init_devices()\<close> complete, each
  of the five block stores is constructed as a new vdev with the parameters of the
  specification's table: DATA with WRITEBACK caching, no mirrors and the minimum
  virtual page size of the input; INDEX with READ-MODIFY-WRITEBACK caching, no
  mirrors and the atomic physical page size; SUPERBLOCK with PASS_THRU, one mirror
  less than there are devices, and the atomic physical page size; LOGDEV with
  PASS_THRU, no mirrors and the atomic physical page size; META with PASS_THRU, no
  mirrors and the META page size.
\<close>

theorem first_boot_parameters:
  assumes init: "init X input hs0 = Inr hs1"
      and first: "media_vdevs (the_media X) = None"
      and boot: "init_devices X hs1 = Inr hs"
  shows "\<exists>s. store_of t hs = Some s \<and> bs_vb s = None
           \<and> bs_cache_type s = spec_caching t
           \<and> bs_mirrors s = of_nat (spec_mirrors (length (devices input)) t)
           \<and> bs_page_size s = spec_page_size (min_virtual_page_size input)
                 (atomic_phys_page_size (cfg_drive_attr (hs_config hs1))) (META_BLK_PAGE_SZ X) t"
proof -
  from init_Inr [OF init] have dev: "devices input \<noteq> []"
    and inp: "cfg_input (hs_config hs1) = input"
    and pagesz: "m_data_pagesz hs1 = min_virtual_page_size input"
    by simp_all
  from init_devices_first_boot [OF first boot] obtain dm hsa dm' where
    dm: "m_dev_mgr hs1 = Some dm"
    and all: "create_all_blkstores X (hs1\<lparr>m_dev_mgr := Some (attach_devices X True dm)\<rparr>) = Inr hsa"
    and hs: "hs = hsa\<lparr>m_dev_mgr := Some (dm'\<lparr>dm_init_done := True\<rparr>),
                     resource_total_cap := dm_total_cap dm'\<rparr>"
    by blast
  have st: "store_of t hs = store_of t hsa"
    unfolding hs by (rule store_of_dev_mgr_update)
  from dev have len: "1 \<le> length (devices input)"
    by (cases "devices input") simp_all
  have mir: "(if t = SB_STORE then of_nat (length (devices input)) - 1 else 0)
               = (of_nat (spec_mirrors (length (devices input)) t) :: u64)"
    using len by (cases t) simp_all
  from create_all_blkstores_result [OF _ all, of "attach_devices X True dm" t]
  show ?thesis
    using st inp pagesz mir by auto
qed

lemma demo_media: "media_vdevs (the_media demo_X) = None"
  by (simp add: demo_X_def)

text \<open>The demo fleet of two devices: the superblock store has one mirror, the data store 4 KiB pages.\<close>

theorem first_boot_parameters_witness:
  "init demo_X demo_input (HomeStore_new demo_cfg0) = Inr demo_hs
   \<and> media_vdevs (the_media demo_X) = None
   \<and> init_devices demo_X demo_hs = Inr demo_booted
   \<and> map_option bs_cache_type (store_of DATA_STORE demo_booted) = Some WRITEBACK_CACHE
   \<and> map_option bs_page_size (store_of DATA_STORE demo_booted) = Some 4096
   \<and> map_option bs_cache_type (store_of SB_STORE demo_booted) = Some PASS_THRU
   \<and> map_option bs_mirrors (store_of SB_STORE demo_booted) = Some 1"
proof -
  from first_boot_parameters [OF demo_init demo_media demo_first_boot, of DATA_STORE]
  have d: "map_option bs_cache_type (store_of DATA_STORE demo_booted) = Some WRITEBACK_CACHE
           \<and> map_option bs_page_size (store_of DATA_STORE demo_booted) = Some 4096"
    by (auto simp add: demo_input_def)
  from first_boot_parameters [OF demo_init demo_media demo_first_boot, of SB_STORE]
  have s: "map_option bs_cache_type (store_of SB_STORE demo_booted) = Some PASS_THRU
           \<and> map_option bs_mirrors (store_of SB_STORE demo_booted) = Some 1"
    by (auto simp add: demo_input_def)
  from d s demo_init demo_media demo_first_boot show ?thesis by simp
qed

text \<open>
  Claim C5.  On a first boot that \<^verbatim>\<open>init_devices()\<close> completes, the size of each vdev is
  its share of the total capacity in percent (DATA 90, INDEX 2, SUPERBLOCK 1,
  LOGDEV 1, META 1), divided as integers with the remainder dropped, and then
  rounded up to the physical page size.  The arithmetic is that of \<^verbatim>\<open>uint64_t\<close>.
  For a page size that is not zero and a capacity for which neither 90 times the
  capacity nor the rounding leaves 64 bits (any capacity below 180 PiB) this is
  the exact fraction rounded up: the size is a multiple of the page size, not
  below the share, and less than a page above it.
\<close>

theorem first_boot_sizes:
  assumes first: "media_vdevs (the_media X) = None"
      and boot: "init_devices X hs1 = Inr hs"
  shows "\<exists>s. store_of t hs = Some s
           \<and> bs_size s = round_up (of_nat (spec_share t) * media_total_cap (the_media X) div 100)
                                   (phys_page_size (cfg_drive_attr (hs_config hs1)))
           \<and> (phys_page_size (cfg_drive_attr (hs_config hs1)) \<noteq> 0
                \<and> 90 * unat (media_total_cap (the_media X)) < 2 ^ 64
                \<and> 90 * unat (media_total_cap (the_media X)) div 100
                     + unat (phys_page_size (cfg_drive_attr (hs_config hs1))) \<le> 2 ^ 64
              \<longrightarrow> unat (phys_page_size (cfg_drive_attr (hs_config hs1))) dvd unat (bs_size s)
                \<and> spec_share t * unat (media_total_cap (the_media X)) div 100 \<le> unat (bs_size s)
                \<and> unat (bs_size s) < spec_share t * unat (media_total_cap (the_media X)) div 100
                                        + unat (phys_page_size (cfg_drive_attr (hs_config hs1))))"
proof -
  let ?cap = "media_total_cap (the_media X)"
  let ?pg = "phys_page_size (cfg_drive_attr (hs_config hs1))"
  let ?raw = "spec_share t * unat ?cap div 100"
  from init_devices_first_boot [OF first boot] obtain dm hsa dm' where
    dm: "m_dev_mgr hs1 = Some dm"
    and all: "create_all_blkstores X (hs1\<lparr>m_dev_mgr := Some (attach_devices X True dm)\<rparr>) = Inr hsa"
    and hs: "hs = hsa\<lparr>m_dev_mgr := Some (dm'\<lparr>dm_init_done := True\<rparr>),
                     resource_total_cap := dm_total_cap dm'\<rparr>"
    by blast
  have st: "store_of t hs = store_of t hsa"
    unfolding hs by (rule store_of_dev_mgr_update)
  from create_all_blkstores_result [OF _ all, of "attach_devices X True dm" t]
  obtain s where s: "store_of t hsa = Some s"
    and sz: "bs_size s = round_up (of_nat (spec_share t) * ?cap div 100) ?pg"
    by (auto simp add: attach_devices_def)
  have bounds: "unat ?pg dvd unat (bs_size s) \<and> ?raw \<le> unat (bs_size s)
                  \<and> unat (bs_size s) < ?raw + unat ?pg"
    if page: "?pg \<noteq> 0" and prod: "90 * unat ?cap < 2 ^ 64"
      and sum: "90 * unat ?cap div 100 + unat ?pg \<le> 2 ^ 64"
  proof -
    have share: "spec_share t \<le> 90"
      by (cases t) simp_all
    then have raw: "unat ((of_nat (spec_share t) :: u64) * ?cap div 100) = ?raw"
      using prod by (rule share_unat)
    from share have "spec_share t * unat ?cap \<le> 90 * unat ?cap"
      by (rule mult_le_mono1)
    then have le: "?raw \<le> 90 * unat ?cap div 100"
      by (rule div_le_mono)
    have fit: "unat ((of_nat (spec_share t) :: u64) * ?cap div 100) + unat ?pg \<le> 2 ^ 64"
      unfolding raw using sum le by linarith
    have r: "unat (bs_size s) = (?raw + unat ?pg - 1) div unat ?pg * unat ?pg"
      unfolding sz using round_up_unat [OF page fit] raw by simp
    from page have pg0: "0 < unat ?pg"
      by (simp add: unat_gt_0)
    from round_up_nat_bounds [OF pg0, of ?raw] r show ?thesis
      by simp
  qed
  from s st sz bounds show ?thesis
    by simp
qed

subsection \<open>Reattach\<close>

lemma init_devices_reattach_stores:
  assumes media: "media_vdevs (the_media X) = Some vbs" and dm: "m_dev_mgr hs = Some dm"
  shows "store_of t (state_of (init_devices X hs))
           = store_of t (state_of (dispatch_vdevs X vbs (hs\<lparr>m_dev_mgr := Some (attach_devices X False dm)\<rparr>)))"
proof (cases "dispatch_vdevs X vbs (hs\<lparr>m_dev_mgr := Some (attach_devices X False dm)\<rparr>)")
  case (Inl x)
  with media dm show ?thesis
    by (simp add: init_devices_def add_devices_def)
next
  case (Inr hsa)
  with media dm show ?thesis
    by (cases t)
       (simp_all add: init_devices_def add_devices_def hs_assert_def Let_def
          split: option.splits)
qed

lemma init_devices_reattach_throws:
  assumes media: "media_vdevs (the_media X) = Some vbs" and dm: "m_dev_mgr hs = Some dm"
    and d: "dispatch_vdevs X vbs (hs\<lparr>m_dev_mgr := Some (attach_devices X False dm)\<rparr>) = Inl x"
  shows "init_devices X hs = Inl x"
  using assms by (simp add: init_devices_def add_devices_def)

lemma store_of_attach:
  "store_of t (hs\<lparr>m_dev_mgr := a\<rparr>) = store_of t hs"
  by (cases t) simp_all

lemma new_vdev_found_constructs:
  assumes "vb_context_type vb = blkstore_type_val t"
  shows "\<exists>s. store_of t (state_of (new_vdev_found X vb hs)) = Some s \<and> bs_vb s = Some vb"
  using assms
  by (cases t)
     (simp_all add: new_vdev_found_def create_data_blkstore_def create_index_blkstore_def
        create_sb_blkstore_def create_logdev_blkstore_def create_meta_blkstore_def Let_def
        BlkStore_load_def)

text \<open>
  Claim C7.  On a reattach where a vdev record with a known type tag has
  \<^verbatim>\<open>failed = true\<close> and the records reported before it were attached, the block store
  of that record is constructed over it and the construction ends in the fatal
  error for a failed vdev: the exception \<^verbatim>\<open>runtime_error("vdev in failed state")\<close> with
  the member \<^verbatim>\<open>m_vdev_failed\<close> set, which is how the source represents the error kind
  \<open>vdev_failed\<close>.  The exception leaves \<^verbatim>\<open>init_devices()\<close>, so start-up stops there, and
  every store whose record was not yet dispatched is as it was before: not
  constructed.
\<close>

theorem failed_vdev_stops_reattach:
  assumes dm: "m_dev_mgr hs = Some dm"
      and media: "media_vdevs (the_media X) = Some (pre @ vb # post)"
      and failed: "vb_failed vb"
      and tag: "vb_context_type vb = blkstore_type_val t"
      and pre: "dispatch_vdevs X pre (hs\<lparr>m_dev_mgr := Some (attach_devices X False dm)\<rparr>) = Inr hs1"
  shows "init_devices X hs = Inl (Runtime_error ''vdev in failed state'', state_of (init_devices X hs))
         \<and> m_vdev_failed (state_of (init_devices X hs))
         \<and> (\<exists>s. store_of t (state_of (init_devices X hs)) = Some s \<and> bs_vb s = Some vb)
         \<and> (\<forall>t'. blkstore_type_val t' \<notin> vb_context_type ` set (pre @ [vb]) \<longrightarrow>
                  store_of t' (state_of (init_devices X hs)) = store_of t' hs)"
proof -
  let ?hsA = "hs\<lparr>m_dev_mgr := Some (attach_devices X False dm)\<rparr>"
  define hs2 where "hs2 = state_of (new_vdev_found X vb hs1)"
  from new_vdev_found_failed [OF failed tag, of X hs1]
  have thr: "new_vdev_found X vb hs1 = Inl (Runtime_error ''vdev in failed state'', hs2)"
    and flag: "m_vdev_failed hs2"
    unfolding hs2_def by simp_all
  have "dispatch_vdevs X (pre @ vb # post) ?hsA = dispatch_vdevs X (vb # post) hs1"
    using pre by (simp add: dispatch_vdevs_append)
  also have "\<dots> = Inl (Runtime_error ''vdev in failed state'', hs2)"
    using thr by simp
  finally have d: "dispatch_vdevs X (pre @ vb # post) ?hsA = Inl (Runtime_error ''vdev in failed state'', hs2)" .
  from init_devices_reattach_throws [OF media dm d]
  have r: "init_devices X hs = Inl (Runtime_error ''vdev in failed state'', hs2)" .
  then have st: "state_of (init_devices X hs) = hs2"
    by simp
  have frame: "store_of t' hs2 = store_of t' hs"
    if "blkstore_type_val t' \<notin> vb_context_type ` set (pre @ [vb])" for t'
  proof -
    from that have a: "vb_context_type vb \<noteq> blkstore_type_val t'"
      and b: "blkstore_type_val t' \<notin> vb_context_type ` set pre"
      by auto
    have "store_of t' hs2 = store_of t' hs1"
      unfolding hs2_def using a by (rule new_vdev_found_frame)
    also have "\<dots> = store_of t' (state_of (dispatch_vdevs X pre ?hsA))"
      using pre by simp
    also have "\<dots> = store_of t' ?hsA"
      using b by (rule dispatch_vdevs_frame)
    also have "\<dots> = store_of t' hs"
      by (rule store_of_attach)
    finally show ?thesis .
  qed
  from new_vdev_found_constructs [OF tag, of X hs1]
  have "\<exists>s. store_of t hs2 = Some s \<and> bs_vb s = Some vb"
    unfolding hs2_def .
  with r flag frame show ?thesis
    unfolding st by simp
qed

subsection \<open>The superblock store and the context blobs\<close>

lemma demo_hs_fresh:
  "m_dev_mgr demo_hs = Some \<lparr>dm_total_cap = 0, dm_first_time_boot = False, dm_restricted = False,
                              dm_init_done = False\<rparr>"
  "m_data_blk_store demo_hs = None" "m_index_blk_store demo_hs = None" "m_sb_blk_store demo_hs = None"
  "m_logdev_blk_store demo_hs = None" "m_meta_blk_store demo_hs = None"
  by (simp_all add: demo_defs init_def HomeStore_new_def Let_def)

text \<open>
  The demo catalog with the INDEX record failed: the DATA store is attached, the
  INDEX store is constructed over the failed record, the error is thrown and the
  META store is never constructed.
\<close>

theorem failed_vdev_stops_reattach_witness:
  "thrown (init_devices (demo_X_reattach True (BlkId_at 0 0 4096)) demo_hs)
     = Some (Runtime_error ''vdev in failed state'')
   \<and> m_vdev_failed (state_of (init_devices (demo_X_reattach True (BlkId_at 0 0 4096)) demo_hs))
   \<and> map_option bs_vb (store_of INDEX_STORE
        (state_of (init_devices (demo_X_reattach True (BlkId_at 0 0 4096)) demo_hs)))
       = Some (Some (demo_vb INDEX_STORE BlkId_invalid True))
   \<and> store_of META_STORE (state_of (init_devices (demo_X_reattach True (BlkId_at 0 0 4096)) demo_hs)) = None"
proof -
  let ?X = "demo_X_reattach True (BlkId_at 0 0 4096)"
  let ?dm = "\<lparr>dm_total_cap = 0, dm_first_time_boot = False, dm_restricted = False, dm_init_done = False\<rparr>"
  let ?pre = "[demo_vb DATA_STORE BlkId_invalid False]"
  let ?vb = "demo_vb INDEX_STORE BlkId_invalid True"
  let ?post = "[demo_vb META_STORE (BlkId_at 0 0 4096) False]"
  have media: "media_vdevs (the_media ?X) = Some (?pre @ ?vb # ?post)"
    by (simp add: demo_X_reattach_def demo_X_with_def demo_catalog_def)
  have failed: "vb_failed ?vb" and tag: "vb_context_type ?vb = blkstore_type_val INDEX_STORE"
    by (simp_all add: demo_vb_def)
  have "\<exists>hs1. dispatch_vdevs ?X ?pre (demo_hs\<lparr>m_dev_mgr := Some (attach_devices ?X False ?dm)\<rparr>) = Inr hs1"
    by (simp add: demo_vb_def new_vdev_found_def create_data_blkstore_def Let_def)
  then obtain hs1 where
    pre: "dispatch_vdevs ?X ?pre (demo_hs\<lparr>m_dev_mgr := Some (attach_devices ?X False ?dm)\<rparr>) = Inr hs1"
    by blast
  have meta: "blkstore_type_val META_STORE \<notin> vb_context_type ` set (?pre @ [?vb])"
    by (simp add: demo_vb_def)
  note th = failed_vdev_stops_reattach [OF demo_hs_fresh(1) media failed tag pre]
  from th have "store_of META_STORE (state_of (init_devices ?X demo_hs)) = store_of META_STORE demo_hs"
    using meta by blast
  then have m: "store_of META_STORE (state_of (init_devices ?X demo_hs)) = None"
    using demo_hs_fresh(6) by simp
  from th have "thrown (init_devices ?X demo_hs) = Some (Runtime_error ''vdev in failed state'')"
    by (cases "init_devices ?X demo_hs") auto
  moreover from th have "m_vdev_failed (state_of (init_devices ?X demo_hs))"
    by blast
  moreover from th have "map_option bs_vb (store_of INDEX_STORE (state_of (init_devices ?X demo_hs)))
       = Some (Some ?vb)"
    by auto
  ultimately show ?thesis
    using m by simp
qed

text \<open>
  The claim that a first-time boot creates no SUPERBLOCK store fails on the
  fresh demo fleet: before \<^verbatim>\<open>init_devices()\<close> there is no superblock store, afterwards
  there is a new one, with its root block allocated.
\<close>

theorem first_boot_creates_sb_counterexample:
  "media_vdevs (the_media demo_X) = None
   \<and> m_sb_blk_store demo_hs = None
   \<and> init_devices demo_X demo_hs = Inr demo_booted
   \<and> m_sb_blk_store demo_booted =
       Some ((BlkStore_create 21475328 PASS_THRU 1 (Sb_blkstore_blob SB_STORE (BlkId_at 0 0 4096)) 4096
                ''superblock'' False False)\<lparr>bs_used_size := 4096\<rparr>)"
  using demo_media demo_hs_fresh(4) demo_first_boot demo_booted_stores(3) by simp

text \<open>
  Claim C3, as the source has it.  A first-time boot that \<^verbatim>\<open>init_devices()\<close> completes
  does create the SUPERBLOCK block store: a new vdev of one percent of the
  capacity, constructed with an invalidated block id in its context, from which
  one atomic page is then allocated contiguously; the allocator answers
  \<^verbatim>\<open>SUCCESS\<close>, and the context of the store is rewritten to the type tag and the block
  id the allocator returned.  On a reattach a SUPERBLOCK store comes into
  existence only when a vdev record tagged \<^verbatim>\<open>SB_STORE\<close> is rediscovered.
\<close>

theorem sb_store_first_boot_and_reattach:
  "(media_vdevs (the_media X) = None \<longrightarrow> init_devices X hs = Inr hs' \<longrightarrow>
      (\<exists>s b. m_sb_blk_store hs' = Some s \<and> bs_vb s = None
             \<and> bs_context s = Some (Sb_blkstore_blob SB_STORE b))
      \<and> (let sb = BlkStore_create
                     (round_up (media_total_cap (the_media X) div 100)
                        (phys_page_size (cfg_drive_attr (hs_config hs))))
                     PASS_THRU (of_nat (length (devices (cfg_input (hs_config hs)))) - 1)
                     (Sb_blkstore_blob SB_STORE BlkId_invalid)
                     (atomic_phys_page_size (cfg_drive_attr (hs_config hs))) ''superblock'' False False;
               a = alloc_contiguous_blk X sb (atomic_phys_page_size (cfg_drive_attr (hs_config hs)))
                     \<lparr>desired_temp = 0, dev_id_hint = - 1, is_contiguous = True\<rparr>
           in fst a = SUCCESS
              \<and> m_sb_blk_store hs' =
                  Some (update_vb_context (Sb_blkstore_blob SB_STORE (fst (snd a)))
                          (sb\<lparr>bs_used_size := snd (snd a)\<rparr>))))
   \<and> (\<forall>vbs. media_vdevs (the_media X) = Some vbs \<longrightarrow> m_sb_blk_store hs = None \<longrightarrow>
         m_sb_blk_store (state_of (init_devices X hs)) \<noteq> None \<longrightarrow>
         (\<exists>vb\<in>set vbs. vb_context_type vb = blkstore_type_val SB_STORE))"
proof (intro conjI impI allI)
  assume first: "media_vdevs (the_media X) = None" and boot: "init_devices X hs = Inr hs'"
  from init_devices_first_boot [OF first boot] obtain dm hsa dm' where
    dm: "m_dev_mgr hs = Some dm"
    and all: "create_all_blkstores X (hs\<lparr>m_dev_mgr := Some (attach_devices X True dm)\<rparr>) = Inr hsa"
    and hs: "hs' = hsa\<lparr>m_dev_mgr := Some (dm'\<lparr>dm_init_done := True\<rparr>),
                     resource_total_cap := dm_total_cap dm'\<rparr>"
    by blast
  from create_all_blkstores_result [OF _ all, of "attach_devices X True dm" SB_STORE]
  show "\<exists>s b. m_sb_blk_store hs' = Some s \<and> bs_vb s = None
             \<and> bs_context s = Some (Sb_blkstore_blob SB_STORE b)"
    unfolding hs by auto
  from create_all_blkstores_sb [OF _ all, of "attach_devices X True dm"]
  show "(let sb = BlkStore_create
                     (round_up (media_total_cap (the_media X) div 100)
                        (phys_page_size (cfg_drive_attr (hs_config hs))))
                     PASS_THRU (of_nat (length (devices (cfg_input (hs_config hs)))) - 1)
                     (Sb_blkstore_blob SB_STORE BlkId_invalid)
                     (atomic_phys_page_size (cfg_drive_attr (hs_config hs))) ''superblock'' False False;
               a = alloc_contiguous_blk X sb (atomic_phys_page_size (cfg_drive_attr (hs_config hs)))
                     \<lparr>desired_temp = 0, dev_id_hint = - 1, is_contiguous = True\<rparr>
           in fst a = SUCCESS
              \<and> m_sb_blk_store hs' =
                  Some (update_vb_context (Sb_blkstore_blob SB_STORE (fst (snd a)))
                          (sb\<lparr>bs_used_size := snd (snd a)\<rparr>)))"
    unfolding hs by (simp add: attach_devices_def Let_def)
next
  fix vbs
  assume media: "media_vdevs (the_media X) = Some vbs" and none: "m_sb_blk_store hs = None"
    and some: "m_sb_blk_store (state_of (init_devices X hs)) \<noteq> None"
  show "\<exists>vb\<in>set vbs. vb_context_type vb = blkstore_type_val SB_STORE"
  proof (rule ccontr)
    assume "\<not> (\<exists>vb\<in>set vbs. vb_context_type vb = blkstore_type_val SB_STORE)"
    then have notin: "blkstore_type_val SB_STORE \<notin> vb_context_type ` set vbs"
      by force
    show False
    proof (cases "m_dev_mgr hs")
      case None
      then have "init_devices X hs = Inl (Null_deref, hs)"
        by (simp add: init_devices_def add_devices_def)
      with none some show False by simp
    next
      case (Some dm)
      from init_devices_reattach_stores [OF media Some, of SB_STORE]
        dispatch_vdevs_frame [OF notin, of X "hs\<lparr>m_dev_mgr := Some (attach_devices X False dm)\<rparr>"]
      have "m_sb_blk_store (state_of (init_devices X hs)) = m_sb_blk_store hs"
        by simp
      with none some show False by simp
    qed
  qed
qed

text \<open>
  Both halves on the demo fleet: the fresh one, where the allocator hands out the
  first page of the new store as root block, and one whose catalog holds a
  superblock record.
\<close>

theorem sb_store_first_boot_and_reattach_witness:
  "media_vdevs (the_media demo_X) = None
   \<and> init_devices demo_X demo_hs = Inr demo_booted
   \<and> alloc_contiguous_blk demo_X
        (BlkStore_create 21475328 PASS_THRU 1 (Sb_blkstore_blob SB_STORE BlkId_invalid) 4096
           ''superblock'' False False)
        4096 \<lparr>desired_temp = 0, dev_id_hint = - 1, is_contiguous = True\<rparr>
       = (SUCCESS, BlkId_at 0 0 4096, 4096)
   \<and> m_sb_blk_store demo_booted =
       Some (update_vb_context (Sb_blkstore_blob SB_STORE (BlkId_at 0 0 4096))
               ((BlkStore_create 21475328 PASS_THRU 1 (Sb_blkstore_blob SB_STORE BlkId_invalid) 4096
                   ''superblock'' False False)\<lparr>bs_used_size := 4096\<rparr>))
   \<and> map_option bs_vb (m_sb_blk_store demo_booted) = Some None
   \<and> map_option bs_context (m_sb_blk_store demo_booted)
       = Some (Some (Sb_blkstore_blob SB_STORE (BlkId_at 0 0 4096)))
   \<and> media_vdevs (the_media (demo_X_with [demo_vb SB_STORE (BlkId_at 0 0 4096) False]))
       = Some [demo_vb SB_STORE (BlkId_at 0 0 4096) False]
   \<and> m_sb_blk_store demo_hs = None
   \<and> m_sb_blk_store (state_of (init_devices (demo_X_with [demo_vb SB_STORE (BlkId_at 0 0 4096) False]) demo_hs))
       = Some (BlkStore_load (demo_vb SB_STORE (BlkId_at 0 0 4096) False) PASS_THRU 4096 ''superblock''
                 False False False)
   \<and> vb_context_type (demo_vb SB_STORE (BlkId_at 0 0 4096) False) = blkstore_type_val SB_STORE"
proof -
  let ?vb = "demo_vb SB_STORE (BlkId_at 0 0 4096) False"
  let ?sb = "BlkStore_create 21475328 PASS_THRU 1 (Sb_blkstore_blob SB_STORE BlkId_invalid) 4096
               ''superblock'' False False"
  have al: "alloc_contiguous_blk demo_X ?sb 4096
              \<lparr>desired_temp = 0, dev_id_hint = - 1, is_contiguous = True\<rparr>
              = (SUCCESS, BlkId_at 0 0 4096, 4096)"
    by (simp add: demo_X_def demo_alloc_def BlkStore_create_def)
  have cfg: "round_up (media_total_cap (the_media demo_X) div 100)
               (phys_page_size (cfg_drive_attr (hs_config demo_hs))) = 21475328"
    "of_nat (length (devices (cfg_input (hs_config demo_hs)))) - 1 = (1 :: u64)"
    "atomic_phys_page_size (cfg_drive_attr (hs_config demo_hs)) = 4096"
    by (simp_all add: demo_defs init_def round_up_def Let_def)
  note th1 = sb_store_first_boot_and_reattach [of demo_X demo_hs demo_booted, THEN conjunct1,
      rule_format, OF demo_media demo_first_boot]
  from th1 have s: "m_sb_blk_store demo_booted =
       Some (update_vb_context (Sb_blkstore_blob SB_STORE (BlkId_at 0 0 4096)) (?sb\<lparr>bs_used_size := 4096\<rparr>))"
    by (simp add: cfg al Let_def)
  then have a: "map_option bs_vb (m_sb_blk_store demo_booted) = Some None
     \<and> map_option bs_context (m_sb_blk_store demo_booted)
          = Some (Some (Sb_blkstore_blob SB_STORE (BlkId_at 0 0 4096)))"
    by (simp add: BlkStore_create_def update_vb_context_def)
  have media: "media_vdevs (the_media (demo_X_with [?vb])) = Some [?vb]"
    by (simp add: demo_X_with_def)
  have sb: "m_sb_blk_store (state_of (init_devices (demo_X_with [?vb]) demo_hs))
       = Some (BlkStore_load ?vb PASS_THRU 4096 ''superblock'' False False False)"
    by (simp add: demo_X_with_def demo_vb_def facade_defs demo_defs Let_def)
  then have ne: "m_sb_blk_store (state_of (init_devices (demo_X_with [?vb]) demo_hs)) \<noteq> None"
    by simp
  from sb_store_first_boot_and_reattach [of "demo_X_with [?vb]" demo_hs demo_booted, THEN conjunct2,
      rule_format, OF media demo_hs_fresh(4) ne]
  have "vb_context_type ?vb = blkstore_type_val SB_STORE"
    by simp
  with a s al media sb demo_media demo_first_boot demo_hs_fresh(4) show ?thesis
    by simp
qed

text \<open>
  The claim that only the SUPERBLOCK store has a block id behind the type tag of
  its context fails for META: of two META records that differ in nothing but the
  block id behind the tag, one is attached, with that block id handed to the
  meta-block manager, and the other is refused with \<^verbatim>\<open>init_failed\<close>.
\<close>

theorem meta_context_blkid_counterexample:
  "vb_context_type (demo_vb META_STORE BlkId_invalid False) = blkstore_type_val META_STORE
   \<and> vb_context_type (demo_vb META_STORE (BlkId_at 0 0 4096) False) = blkstore_type_val META_STORE
   \<and> thrown (new_vdev_found demo_X (demo_vb META_STORE BlkId_invalid False) demo_hs)
       = Some (Homestore_exception ''init was failed last time. Should retry it with init'' init_failed)
   \<and> thrown (new_vdev_found demo_X (demo_vb META_STORE (BlkId_at 0 0 4096) False) demo_hs) = None
   \<and> meta_blk_mgr_start (state_of (new_vdev_found demo_X (demo_vb META_STORE (BlkId_at 0 0 4096) False) demo_hs))
       = Some (Some (BlkId_at 0 0 4096), False)"
  by (simp add: demo_vb_def new_vdev_found_def create_meta_blkstore_def is_valid_def Let_def)

text \<open>
  Claim C4, as the source has it.  The context blob registered at first boot is
  \<open>{type}\<close> for DATA, INDEX, LOGDEV and META and \<open>{type, root_blkid}\<close> for SUPERBLOCK.  At
  reattach the facade reads the leading type tag of the context and calls the
  constructor of exactly that store type (and none for an unknown tag).  The DATA,
  INDEX and LOGDEV constructors read nothing behind the tag: for two records that
  differ only in the block id behind the tag they throw the same or nothing and
  leave the same state, apart from the record that the new store is built over.
  The SUPERBLOCK and also the META constructor read a block id behind the tag,
  through the \<^verbatim>\<open>sb_blkstore_blob\<close> view, and throw \<^verbatim>\<open>init_failed\<close> when it is invalid.
\<close>

theorem context_blob_and_dispatch:
  "(\<forall>dm. m_dev_mgr hs = Some dm \<longrightarrow>
       map_option bs_context (m_data_blk_store (state_of (create_data_blkstore X None hs)))
         = Some (Some (Blkstore_blob DATA_STORE))
     \<and> map_option bs_context (m_index_blk_store (state_of (create_index_blkstore X None hs)))
         = Some (Some (Blkstore_blob INDEX_STORE))
     \<and> map_option bs_context (m_logdev_blk_store (state_of (create_logdev_blkstore X None hs)))
         = Some (Some (Blkstore_blob LOGDEV_STORE))
     \<and> map_option bs_context (m_meta_blk_store (state_of (create_meta_blkstore X None hs)))
         = Some (Some (Blkstore_blob META_STORE))
     \<and> (\<exists>b. map_option bs_context (m_sb_blk_store (state_of (create_sb_blkstore X None hs)))
               = Some (Some (Sb_blkstore_blob SB_STORE b))))
   \<and> (\<forall>t. vb_context_type vb = blkstore_type_val t \<longrightarrow>
         new_vdev_found X vb hs =
           (case t of
              DATA_STORE \<Rightarrow> create_data_blkstore X (Some vb) hs
            | INDEX_STORE \<Rightarrow> create_index_blkstore X (Some vb) hs
            | SB_STORE \<Rightarrow> create_sb_blkstore X (Some vb) hs
            | LOGDEV_STORE \<Rightarrow> create_logdev_blkstore X (Some vb) hs
            | META_STORE \<Rightarrow> create_meta_blkstore X (Some vb) hs))
   \<and> ((\<forall>t. vb_context_type vb \<noteq> blkstore_type_val t) \<longrightarrow> new_vdev_found X vb hs = hs_assert X False hs)
   \<and> thrown (create_data_blkstore X (Some vb) hs)
       = (if vb_failed vb then Some (Runtime_error ''vdev in failed state'') else None)
   \<and> thrown (create_index_blkstore X (Some vb) hs)
       = (if vb_failed vb then Some (Runtime_error ''vdev in failed state'') else None)
   \<and> thrown (create_logdev_blkstore X (Some vb) hs)
       = (if vb_failed vb then Some (Runtime_error ''vdev in failed state'') else None)
   \<and> thrown (create_sb_blkstore X (Some vb) hs)
       = (if vb_failed vb then Some (Runtime_error ''vdev in failed state'')
          else if is_valid (vb_context_blkid vb) then None
          else Some (Homestore_exception ''init was failed last time. Should retry it with init''
                       init_failed))
   \<and> thrown (create_meta_blkstore X (Some vb) hs)
       = (if vb_failed vb then Some (Runtime_error ''vdev in failed state'')
          else if is_valid (vb_context_blkid vb) then None
          else Some (Homestore_exception ''init was failed last time. Should retry it with init''
                       init_failed))
   \<and> (\<forall>b. thrown (create_data_blkstore X (Some (vb\<lparr>vb_context_blkid := b\<rparr>)) hs)
             = thrown (create_data_blkstore X (Some vb) hs)
          \<and> state_of (create_data_blkstore X (Some (vb\<lparr>vb_context_blkid := b\<rparr>)) hs)
             = (state_of (create_data_blkstore X (Some vb) hs))
                 \<lparr>m_data_blk_store :=
                    map_option (\<lambda>s. s\<lparr>bs_vb := Some (vb\<lparr>vb_context_blkid := b\<rparr>)\<rparr>)
                      (m_data_blk_store (state_of (create_data_blkstore X (Some vb) hs)))\<rparr>
          \<and> thrown (create_index_blkstore X (Some (vb\<lparr>vb_context_blkid := b\<rparr>)) hs)
             = thrown (create_index_blkstore X (Some vb) hs)
          \<and> state_of (create_index_blkstore X (Some (vb\<lparr>vb_context_blkid := b\<rparr>)) hs)
             = (state_of (create_index_blkstore X (Some vb) hs))
                 \<lparr>m_index_blk_store :=
                    map_option (\<lambda>s. s\<lparr>bs_vb := Some (vb\<lparr>vb_context_blkid := b\<rparr>)\<rparr>)
                      (m_index_blk_store (state_of (create_index_blkstore X (Some vb) hs)))\<rparr>
          \<and> thrown (create_logdev_blkstore X (Some (vb\<lparr>vb_context_blkid := b\<rparr>)) hs)
             = thrown (create_logdev_blkstore X (Some vb) hs)
          \<and> state_of (create_logdev_blkstore X (Some (vb\<lparr>vb_context_blkid := b\<rparr>)) hs)
             = (state_of (create_logdev_blkstore X (Some vb) hs))
                 \<lparr>m_logdev_blk_store :=
                    map_option (\<lambda>s. s\<lparr>bs_vb := Some (vb\<lparr>vb_context_blkid := b\<rparr>)\<rparr>)
                      (m_logdev_blk_store (state_of (create_logdev_blkstore X (Some vb) hs)))\<rparr>)"
proof -
  have first: "\<forall>dm. m_dev_mgr hs = Some dm \<longrightarrow>
       map_option bs_context (m_data_blk_store (state_of (create_data_blkstore X None hs)))
         = Some (Some (Blkstore_blob DATA_STORE))
     \<and> map_option bs_context (m_index_blk_store (state_of (create_index_blkstore X None hs)))
         = Some (Some (Blkstore_blob INDEX_STORE))
     \<and> map_option bs_context (m_logdev_blk_store (state_of (create_logdev_blkstore X None hs)))
         = Some (Some (Blkstore_blob LOGDEV_STORE))
     \<and> map_option bs_context (m_meta_blk_store (state_of (create_meta_blkstore X None hs)))
         = Some (Some (Blkstore_blob META_STORE))
     \<and> (\<exists>b. map_option bs_context (m_sb_blk_store (state_of (create_sb_blkstore X None hs)))
               = Some (Some (Sb_blkstore_blob SB_STORE b)))"
    by (auto simp add: create_data_blkstore_def create_index_blkstore_def create_logdev_blkstore_def
          create_meta_blkstore_def create_sb_blkstore_def alloc_sb_blk_def BlkStore_create_def
          update_vb_context_def Let_def split: prod.splits)
  have disp: "\<forall>t. vb_context_type vb = blkstore_type_val t \<longrightarrow>
         new_vdev_found X vb hs =
           (case t of
              DATA_STORE \<Rightarrow> create_data_blkstore X (Some vb) hs
            | INDEX_STORE \<Rightarrow> create_index_blkstore X (Some vb) hs
            | SB_STORE \<Rightarrow> create_sb_blkstore X (Some vb) hs
            | LOGDEV_STORE \<Rightarrow> create_logdev_blkstore X (Some vb) hs
            | META_STORE \<Rightarrow> create_meta_blkstore X (Some vb) hs)"
  proof (intro allI impI)
    fix t assume "vb_context_type vb = blkstore_type_val t"
    then show "new_vdev_found X vb hs =
           (case t of
              DATA_STORE \<Rightarrow> create_data_blkstore X (Some vb) hs
            | INDEX_STORE \<Rightarrow> create_index_blkstore X (Some vb) hs
            | SB_STORE \<Rightarrow> create_sb_blkstore X (Some vb) hs
            | LOGDEV_STORE \<Rightarrow> create_logdev_blkstore X (Some vb) hs
            | META_STORE \<Rightarrow> create_meta_blkstore X (Some vb) hs)"
      by (cases t) (simp_all add: new_vdev_found_def)
  qed
  have unknown: "(\<forall>t. vb_context_type vb \<noteq> blkstore_type_val t) \<longrightarrow>
                   new_vdev_found X vb hs = hs_assert X False hs"
  proof
    assume a: "\<forall>t. vb_context_type vb \<noteq> blkstore_type_val t"
    from a [rule_format, of DATA_STORE] a [rule_format, of INDEX_STORE] a [rule_format, of SB_STORE]
      a [rule_format, of LOGDEV_STORE] a [rule_format, of META_STORE]
    show "new_vdev_found X vb hs = hs_assert X False hs"
      by (simp add: new_vdev_found_def)
  qed
  have reads:
    "thrown (create_data_blkstore X (Some vb) hs)
       = (if vb_failed vb then Some (Runtime_error ''vdev in failed state'') else None)"
    "thrown (create_index_blkstore X (Some vb) hs)
       = (if vb_failed vb then Some (Runtime_error ''vdev in failed state'') else None)"
    "thrown (create_logdev_blkstore X (Some vb) hs)
       = (if vb_failed vb then Some (Runtime_error ''vdev in failed state'') else None)"
    "thrown (create_sb_blkstore X (Some vb) hs)
       = (if vb_failed vb then Some (Runtime_error ''vdev in failed state'')
          else if is_valid (vb_context_blkid vb) then None
          else Some (Homestore_exception ''init was failed last time. Should retry it with init''
                       init_failed))"
    "thrown (create_meta_blkstore X (Some vb) hs)
       = (if vb_failed vb then Some (Runtime_error ''vdev in failed state'')
          else if is_valid (vb_context_blkid vb) then None
          else Some (Homestore_exception ''init was failed last time. Should retry it with init''
                       init_failed))"
    by (simp_all add: create_data_blkstore_def create_index_blkstore_def create_logdev_blkstore_def
          create_meta_blkstore_def create_sb_blkstore_def Let_def)
  have ignores: "(\<forall>b. thrown (create_data_blkstore X (Some (vb\<lparr>vb_context_blkid := b\<rparr>)) hs)
             = thrown (create_data_blkstore X (Some vb) hs)
          \<and> state_of (create_data_blkstore X (Some (vb\<lparr>vb_context_blkid := b\<rparr>)) hs)
             = (state_of (create_data_blkstore X (Some vb) hs))
                 \<lparr>m_data_blk_store :=
                    map_option (\<lambda>s. s\<lparr>bs_vb := Some (vb\<lparr>vb_context_blkid := b\<rparr>)\<rparr>)
                      (m_data_blk_store (state_of (create_data_blkstore X (Some vb) hs)))\<rparr>
          \<and> thrown (create_index_blkstore X (Some (vb\<lparr>vb_context_blkid := b\<rparr>)) hs)
             = thrown (create_index_blkstore X (Some vb) hs)
          \<and> state_of (create_index_blkstore X (Some (vb\<lparr>vb_context_blkid := b\<rparr>)) hs)
             = (state_of (create_index_blkstore X (Some vb) hs))
                 \<lparr>m_index_blk_store :=
                    map_option (\<lambda>s. s\<lparr>bs_vb := Some (vb\<lparr>vb_context_blkid := b\<rparr>)\<rparr>)
                      (m_index_blk_store (state_of (create_index_blkstore X (Some vb) hs)))\<rparr>
          \<and> thrown (create_logdev_blkstore X (Some (vb\<lparr>vb_context_blkid := b\<rparr>)) hs)
             = thrown (create_logdev_blkstore X (Some vb) hs)
          \<and> state_of (create_logdev_blkstore X (Some (vb\<lparr>vb_context_blkid := b\<rparr>)) hs)
             = (state_of (create_logdev_blkstore X (Some vb) hs))
                 \<lparr>m_logdev_blk_store :=
                    map_option (\<lambda>s. s\<lparr>bs_vb := Some (vb\<lparr>vb_context_blkid := b\<rparr>)\<rparr>)
                      (m_logdev_blk_store (state_of (create_logdev_blkstore X (Some vb) hs)))\<rparr>)"
    by (simp add: create_data_blkstore_def create_index_blkstore_def create_logdev_blkstore_def
          BlkStore_load_def Let_def)
  from first disp unknown reads ignores show ?thesis
    by blast
qed

lemma demo_hs_config:
  "phys_page_size (cfg_drive_attr (hs_config demo_hs)) = 4096"
  "media_total_cap (the_media demo_X) = 2147483648"
  by (simp_all add: demo_defs init_def Let_def)

text \<open>The data store of the 2 GiB demo fleet: 90 percent is 1932735283 bytes, rounded up to 471860 pages.\<close>

theorem first_boot_sizes_witness:
  "media_vdevs (the_media demo_X) = None
   \<and> init_devices demo_X demo_hs = Inr demo_booted
   \<and> phys_page_size (cfg_drive_attr (hs_config demo_hs)) = 4096
   \<and> media_total_cap (the_media demo_X) = 2147483648
   \<and> map_option bs_size (store_of DATA_STORE demo_booted) = Some 1932738560
   \<and> (4096 :: nat) dvd 1932738560
   \<and> (90 * 2147483648 div 100 :: nat) \<le> 1932738560
   \<and> (1932738560 :: nat) < 90 * 2147483648 div 100 + 4096"
proof -
  have page: "phys_page_size (cfg_drive_attr (hs_config demo_hs)) \<noteq> 0"
    by (simp add: demo_hs_config)
  have prod: "90 * unat (media_total_cap (the_media demo_X)) < 2 ^ 64"
    by (simp add: demo_hs_config)
  have sum: "90 * unat (media_total_cap (the_media demo_X)) div 100
               + unat (phys_page_size (cfg_drive_attr (hs_config demo_hs))) \<le> 2 ^ 64"
    by (simp add: demo_hs_config)
  have sz: "map_option bs_size (store_of DATA_STORE demo_booted) = Some 1932738560"
    by (simp add: demo_booted_stores BlkStore_create_def)
  from first_boot_sizes [OF demo_media demo_first_boot, of DATA_STORE] page prod sum sz
  have "(4096 :: nat) dvd 1932738560 \<and> (90 * 2147483648 div 100 :: nat) \<le> 1932738560
        \<and> (1932738560 :: nat) < 90 * 2147483648 div 100 + 4096"
    by (auto simp add: demo_hs_config)
  with demo_media demo_first_boot demo_hs_config sz show ?thesis
    by simp
qed

text \<open>The context blobs and the dispatch on the demo fleet, with a record of unknown tag 9.\<close>

theorem context_blob_and_dispatch_witness:
  "map_option bs_context (m_meta_blk_store (state_of (create_meta_blkstore demo_X None demo_booted)))
     = Some (Some (Blkstore_blob META_STORE))
   \<and> map_option bs_context (m_sb_blk_store (state_of (create_sb_blkstore demo_X None demo_booted)))
     = Some (Some (Sb_blkstore_blob SB_STORE (BlkId_at 0 0 4096)))
   \<and> vb_context_type (demo_vb LOGDEV_STORE BlkId_invalid False) = blkstore_type_val LOGDEV_STORE
   \<and> new_vdev_found demo_X (demo_vb LOGDEV_STORE BlkId_invalid False) demo_booted
       = create_logdev_blkstore demo_X (Some (demo_vb LOGDEV_STORE BlkId_invalid False)) demo_booted
   \<and> thrown (create_logdev_blkstore demo_X (Some (demo_vb LOGDEV_STORE BlkId_invalid False)) demo_booted) = None
   \<and> thrown (create_meta_blkstore demo_X (Some (demo_vb META_STORE BlkId_invalid False)) demo_booted)
       = Some (Homestore_exception ''init was failed last time. Should retry it with init'' init_failed)
   \<and> new_vdev_found demo_X (demo_vb DATA_STORE BlkId_invalid False\<lparr>vb_context_type := 9\<rparr>) demo_booted
       = Inl (Assert_failure, demo_booted)
   \<and> thrown (create_logdev_blkstore demo_X
                (Some (demo_vb LOGDEV_STORE BlkId_invalid False\<lparr>vb_context_blkid := BlkId_at 0 0 4096\<rparr>))
                demo_booted) = None"
proof -
  let ?ld = "demo_vb LOGDEV_STORE BlkId_invalid False"
  let ?mt = "demo_vb META_STORE BlkId_invalid False"
  let ?bad = "demo_vb DATA_STORE BlkId_invalid False\<lparr>vb_context_type := 9\<rparr>"
  have tag: "vb_context_type ?ld = blkstore_type_val LOGDEV_STORE"
    by (simp add: demo_vb_def)
  have notag: "\<forall>t. vb_context_type ?bad \<noteq> blkstore_type_val t"
  proof
    fix t show "vb_context_type ?bad \<noteq> blkstore_type_val t"
      by (cases t) simp_all
  qed
  have sbctx: "map_option bs_context (m_sb_blk_store (state_of (create_sb_blkstore demo_X None demo_booted)))
     = Some (Some (Sb_blkstore_blob SB_STORE (BlkId_at 0 0 4096)))"
    by (simp add: demo_booted_def facade_defs demo_defs Let_def)
  note th = context_blob_and_dispatch [of demo_booted demo_X ?ld]
  from th demo_dev_mgr(1)
  have a: "map_option bs_context (m_meta_blk_store (state_of (create_meta_blkstore demo_X None demo_booted)))
             = Some (Some (Blkstore_blob META_STORE))"
    by blast
  from th have "\<forall>t. vb_context_type ?ld = blkstore_type_val t \<longrightarrow>
         new_vdev_found demo_X ?ld demo_booted =
           (case t of
              DATA_STORE \<Rightarrow> create_data_blkstore demo_X (Some ?ld) demo_booted
            | INDEX_STORE \<Rightarrow> create_index_blkstore demo_X (Some ?ld) demo_booted
            | SB_STORE \<Rightarrow> create_sb_blkstore demo_X (Some ?ld) demo_booted
            | LOGDEV_STORE \<Rightarrow> create_logdev_blkstore demo_X (Some ?ld) demo_booted
            | META_STORE \<Rightarrow> create_meta_blkstore demo_X (Some ?ld) demo_booted)"
    by blast
  from this [rule_format, OF tag]
  have b: "new_vdev_found demo_X ?ld demo_booted = create_logdev_blkstore demo_X (Some ?ld) demo_booted"
    by simp
  from th have "thrown (create_logdev_blkstore demo_X (Some ?ld) demo_booted)
       = (if vb_failed ?ld then Some (Runtime_error ''vdev in failed state'') else None)"
    by blast
  then have c: "thrown (create_logdev_blkstore demo_X (Some ?ld) demo_booted) = None"
    by (simp add: demo_vb_def)
  from context_blob_and_dispatch [of demo_booted demo_X ?mt]
  have "thrown (create_meta_blkstore demo_X (Some ?mt) demo_booted)
       = (if vb_failed ?mt then Some (Runtime_error ''vdev in failed state'')
          else if is_valid (vb_context_blkid ?mt) then None
          else Some (Homestore_exception ''init was failed last time. Should retry it with init''
                       init_failed))"
    by blast
  then have d: "thrown (create_meta_blkstore demo_X (Some ?mt) demo_booted)
       = Some (Homestore_exception ''init was failed last time. Should retry it with init'' init_failed)"
    by (simp add: demo_vb_def is_valid_def)
  from context_blob_and_dispatch [of demo_booted demo_X ?bad] notag
  have "new_vdev_found demo_X ?bad demo_booted = hs_assert demo_X False demo_booted"
    by blast
  then have e: "new_vdev_found demo_X ?bad demo_booted = Inl (Assert_failure, demo_booted)"
    by (simp add: hs_assert_def demo_X_def)
  from th have "thrown (create_logdev_blkstore demo_X
                (Some (?ld\<lparr>vb_context_blkid := BlkId_at 0 0 4096\<rparr>)) demo_booted)
       = thrown (create_logdev_blkstore demo_X (Some ?ld) demo_booted)"
    by blast
  with c have f: "thrown (create_logdev_blkstore demo_X
                (Some (?ld\<lparr>vb_context_blkid := BlkId_at 0 0 4096\<rparr>)) demo_booted) = None"
    by simp
  from a b c d e f sbctx tag show ?thesis
    by simp
qed

end
